theory Spec2Isabelle
  imports Complex_Main "HOL-Library.Sublist"
begin

section \<open>The benchmarking orchestrator \<open>emqst\<close> (EMQST_lib/emqst.py)\<close>

text \<open>
  \<open>emqst\<close> is one straight-line Python function that drives collaborators defined in
  other modules (\<open>POVM\<close>, \<open>QST\<close>, \<open>dt\<close>, \<open>sf\<close>, numpy, scipy, matplotlib, the file system).
  The model keeps the function's own control flow and data flow and takes every
  collaborator as a field of an environment record: a collaborator is a function that
  returns a value or raises. Every call that leaves \<open>emqst\<close> is written to a log, in
  program order, so that a statement about what \<open>emqst\<close> invokes, with which arguments and
  in which order, is a statement about that log.
\<close>

subsection \<open>Exceptions\<close>

text \<open>A Python exception, identified by the name of its class.\<close>

datatype exn = Exn string

text \<open>The two exceptions that statements of \<open>emqst\<close> itself can raise.\<close>

definition UnboundLocalError :: exn where
  "UnboundLocalError = Exn ''UnboundLocalError''"

definition IndexError :: exn where
  "IndexError = Exn ''IndexError''"

text \<open>
  The error names of the specification's taxonomy. No statement of \<open>emqst\<close> raises them;
  they are declared so that a run's outcome can be compared with them.
\<close>

definition UnsupportedNoiseError :: exn where
  "UnsupportedNoiseError = Exn ''UnsupportedNoiseError''"

definition EmptyEnsembleError :: exn where
  "EmptyEnsembleError = Exn ''EmptyEnsembleError''"

subsection \<open>Data\<close>

text \<open>
  A numpy array of objects, with the identity of the array object (\<open>oid\<close>, what Python's
  \<open>is\<close> compares) beside its contents: \<open>noisy_POVM_list = POVM_list\<close> binds a second name
  to the same object, \<open>np.array([...])\<close> builds a new one.
\<close>

record 'p ndarray =
  oid :: nat
  items :: "'p list"

text \<open>The object built by \<open>np.array\<close> is none of the objects that are live at that point.\<close>

definition np_array :: "'p ndarray \<Rightarrow> 'p list \<Rightarrow> 'p ndarray" where
  "np_array live xs = \<lparr>oid = Suc (oid live), items = xs\<rparr>"

text \<open>
  A float64 value that numpy computes: a number, a signed infinity or \<open>nan\<close>. The
  arithmetic of float64 (rounding, overflow) is not defined here: the sums and quotients
  of lines 143 and 144 are results of numpy, a collaborator.
\<close>

datatype npfloat = Finite real | PosInf | NegInf | NaN

text \<open>
  What \<open>np.sum(..., axis=0)\<close> and \<open>np.sum(..., axis=0) / n_averages\<close> evaluate to: a
  float64 scalar (the sum of an array of one dimension, such as an empty one) or an array
  of one dimension.
\<close>

datatype np_value = Np_scalar npfloat | Np_vector "npfloat list"

text \<open>The parameters of \<open>emqst\<close>, under their names in the source.\<close>

record ('s, 'a, 'x) args =
  n_qubits :: int
  n_QST_shots_each :: int
  n_calibration_shots_each :: int
  true_state_list :: "'s list"
  calibration_states :: "'s list option"
  bool_exp_measurements :: bool
  exp_dictionary :: 'x
  n_cores :: int
  noise_mode :: int
  true_state_angles_list :: "'a option"
  "method" :: string

text \<open>The arguments of \<open>dt.device_tomography\<close> at line 87, in the order of the call.\<close>

record ('p, 's, 'a, 'x) dt_args =
  dt_n_qubits :: int
  dt_n_calibration_shots_each :: int
  dt_noisy_POVM_list :: "'p ndarray"
  dt_calibration_states :: "'s list"
  dt_n_cores :: int
  dt_bool_exp_meaurements :: bool
  dt_exp_dictionary :: 'x
  dt_initial_guess_POVM :: "'p ndarray"
  dt_calibration_angles :: 'a

text \<open>The dictionary \<open>DT_settings\<close> of lines 91 to 100, one field for each key.\<close>

record ('p, 's) dt_settings =
  ds_n_qubits :: int
  ds_calibration_states :: "'s list"
  ds_n_calibration_shots :: int
  ds_initial_POVM :: "'p ndarray"
  ds_reconstructed_POVM_list :: "'p ndarray"
  ds_bool_exp_meaurements :: bool
  ds_noise_mode :: int
  ds_noisy_POVM_list :: "'p ndarray"

text \<open>The arguments of the constructor \<open>QST(...)\<close> at line 112, in the order of the call.\<close>

record ('p, 's, 'a, 'x) qst_args =
  qa_POVM_list :: "'p ndarray"
  qa_true_state_list :: "'s list"
  qa_n_QST_shots_each :: int
  qa_n_qubits :: int
  qa_bool_exp_measurements :: bool
  qa_exp_dictionary :: 'x
  qa_n_cores :: int
  qa_noise_corrected_POVM_list :: "'p ndarray"
  qa_true_state_angles_list :: "'a option"

subsection \<open>The log of calls\<close>

text \<open>A value formatted into a printed message.\<close>

datatype pv = PInt int | PStr string | PReal real | PElapsed

text \<open>
  One constructor for each kind of call that leaves \<open>emqst\<close>. \<open>'p\<close> is a POVM object,
  \<open>'s\<close> a state (density matrix), \<open>'a\<close> a collection of angles, \<open>'x\<close> the experiment
  dictionary and \<open>'q\<close> the state of the \<open>QST\<close> object. A method call on the \<open>QST\<close> object
  carries the object's state at the time of the call.
\<close>

datatype ('p, 's, 'a, 'x, 'q) event =
    Print string "pv list"
  | Os_path_exists string
  | Os_makedirs string
  | Os_mkdir string
  | Save_experimental_settings string 'x
  | Call_get_cailibration_states int
  | Call_generate_Pauli_POVM int
  | Call_generate_noisy_POVM 'p int
  | Call_depolarized_POVM 'p
  | Call_device_tomography "('p, 's, 'a, 'x) dt_args"
  | Save_DT_settings string "('p, 's) dt_settings"
  | Call_POVM_distance 'p 'p
  | QST_init "('p, 's, 'a, 'x) qst_args"
  | QST_generate_data 'q "'p ndarray option"
  | QST_save_QST_settings 'q string int
  | QST_perform_MLE 'q "'p ndarray option"
  | QST_perform_BME 'q "'p ndarray option"
  | QST_get_infidelity 'q
  | QST_get_rho_estm 'q
  | Np_sum_axis0 "real list list"
  | Np_true_divide np_value int
  | Save_QST_results string "real list list" "real list list" "'s list" "'s list"
  | Call_curve_fit "nat list" "npfloat list" "real \<times> real"
  | Call_power_law "nat list" real real
  | Plt_call string
  | Plt_plot "nat list" "npfloat list" string string
  | Plt_plot_fit "nat list" "real list" string real
  | Plt_savefig string

subsection \<open>The collaborators\<close>

text \<open>
  Everything \<open>emqst\<close> calls and this file does not define. A collaborator that returns a
  value is a function into \<open>exn + value\<close>; a call made for its effect only (the file
  system, \<open>np.save\<close>, matplotlib, \<open>save_QST_settings\<close>) raises according to \<open>io_error\<close>.
  \<open>results_exists\<close> is what \<open>os.path.exists('results')\<close> returns and \<open>dir_name\<close> is the
  timestamp followed by the uuid. \<open>sf.POVM_distance(a.get_POVM(), b.get_POVM())\<close> of line
  108 is the one collaborator \<open>POVM_distance\<close> on the two POVM objects.
  \<open>np_sum_axis0\<close> is \<open>np.sum(..., axis=0)\<close> and \<open>np_true_divide\<close> is numpy's \<open>/\<close> by an
  integer: what they return on which input, and whether they raise, is numpy's.
\<close>

record ('p, 's, 'a, 'x, 'q) env =
  results_exists :: bool
  dir_name :: string
  io_error :: "('p, 's, 'a, 'x, 'q) event \<Rightarrow> exn option"
  get_cailibration_states :: "int \<Rightarrow> exn + ('s list \<times> 'a)"
  generate_Pauli_POVM :: "int \<Rightarrow> exn + 'p ndarray"
  generate_noisy_POVM :: "'p \<Rightarrow> int \<Rightarrow> exn + 'p"
  depolarized_POVM :: "'p \<Rightarrow> exn + 'p"
  device_tomography :: "('p, 's, 'a, 'x) dt_args \<Rightarrow> exn + 'p ndarray"
  POVM_distance :: "'p \<Rightarrow> 'p \<Rightarrow> exn + real"
  QST_new :: "('p, 's, 'a, 'x) qst_args \<Rightarrow> exn + 'q"
  generate_data :: "'q \<Rightarrow> 'p ndarray option \<Rightarrow> exn + 'q"
  perform_MLE :: "'q \<Rightarrow> 'p ndarray option \<Rightarrow> exn + 'q"
  perform_BME :: "'q \<Rightarrow> 'p ndarray option \<Rightarrow> exn + 'q"
  get_infidelity :: "'q \<Rightarrow> exn + real list list"
  get_rho_estm :: "'q \<Rightarrow> exn + 's list"
  np_sum_axis0 :: "real list list \<Rightarrow> exn + np_value"
  np_true_divide :: "np_value \<Rightarrow> int \<Rightarrow> exn + np_value"
  curve_fit :: "nat list \<Rightarrow> npfloat list \<Rightarrow> real \<times> real \<Rightarrow> exn + (real \<times> real)"
  power_law :: "nat list \<Rightarrow> real \<Rightarrow> real \<Rightarrow> exn + real list"

subsection \<open>Sequencing with exceptions and the log\<close>

text \<open>
  A computation is its outcome (an exception or a value) and the calls it made. \<open>bnd\<close> is
  the semicolon of the source: the second statement runs only if the first returned, and
  the calls of both are logged in order.
\<close>

type_synonym ('r, 'e) comp = "(exn + 'r) \<times> 'e list"

definition ret :: "'r \<Rightarrow> ('r, 'e) comp" where
  "ret x = (Inr x, [])"

definition raise :: "exn \<Rightarrow> ('r, 'e) comp" where
  "raise e = (Inl e, [])"

definition emit :: "'e \<Rightarrow> (unit, 'e) comp" where
  "emit ev = (Inr (), [ev])"

definition call :: "'e \<Rightarrow> exn + 'r \<Rightarrow> ('r, 'e) comp" where
  "call ev outcome = (outcome, [ev])"

definition io :: "('p, 's, 'a, 'x, 'q) env \<Rightarrow> ('p, 's, 'a, 'x, 'q) event
    \<Rightarrow> (unit, ('p, 's, 'a, 'x, 'q) event) comp" where
  "io E ev = call ev (case io_error E ev of None \<Rightarrow> Inr () | Some e \<Rightarrow> Inl e)"

definition bnd :: "('r, 'e) comp \<Rightarrow> ('r \<Rightarrow> ('t, 'e) comp) \<Rightarrow> ('t, 'e) comp" where
  "bnd m f =
     (case m of
        (Inl e, es) \<Rightarrow> (Inl e, es)
      | (Inr x, es) \<Rightarrow> (case f x of (r, es') \<Rightarrow> (r, es @ es')))"

text \<open>A list comprehension \<open>[f(x) for x in xs]\<close>: left to right, stopping at the first raise.\<close>

fun for_each :: "('p \<Rightarrow> ('r, 'e) comp) \<Rightarrow> 'p list \<Rightarrow> ('r list, 'e) comp" where
  "for_each f [] = ret []"
| "for_each f (x # xs) = bnd (f x) (\<lambda>y. bnd (for_each f xs) (\<lambda>ys. ret (y # ys)))"

text \<open>Consecutive \<open>print\<close> statements: none of them raises.\<close>

definition emits :: "'e list \<Rightarrow> (unit, 'e) comp" where
  "emits evs = (Inr (), evs)"

subsection \<open>The stages of \<open>emqst\<close>\<close>

text \<open>
  Lines 36 to 54: the results directory is created when it is missing, then the
  directory of this run, then the experiment dictionary is saved. Returns \<open>data_path\<close>.
\<close>

definition setup_run :: "('p, 's, 'a, 'x, 'q) env \<Rightarrow> ('s, 'a, 'x) args
    \<Rightarrow> (string, ('p, 's, 'a, 'x, 'q) event) comp" where
  "setup_run E a =
     bnd (emit (Os_path_exists ''results'')) (\<lambda>_.
     bnd (if \<not> results_exists E
          then bnd (emit (Print ''Created results dictionary.'' [])) (\<lambda>_.
               io E (Os_makedirs ''results''))
          else ret ()) (\<lambda>_.
     let data_path = ''results/'' @ dir_name E in
     bnd (io E (Os_mkdir data_path)) (\<lambda>_.
     bnd (io E (Save_experimental_settings (data_path @ ''/experimental_settings.npy'')
                  (exp_dictionary a))) (\<lambda>_.
     ret data_path))))"

text \<open>
  Lines 56 and 57. The second component is the binding of the local variable
  \<open>calibration_angles\<close>: the only assignment to it is inside the \<open>if\<close>, so it stays
  unbound (\<open>None\<close>) when the caller supplies the calibration states.
\<close>

definition resolve_calibration :: "('p, 's, 'a, 'x, 'q) env \<Rightarrow> ('s, 'a, 'x) args
    \<Rightarrow> ('s list \<times> 'a option, ('p, 's, 'a, 'x, 'q) event) comp" where
  "resolve_calibration E a =
     (case calibration_states a of
        None \<Rightarrow>
          bnd (call (Call_get_cailibration_states (n_qubits a))
                 (get_cailibration_states E (n_qubits a))) (\<lambda>(cs, angles).
          ret (cs, Some angles))
      | Some cs \<Rightarrow> ret (cs, None))"

text \<open>Lines 61 to 67.\<close>

definition print_header :: "('s, 'a, 'x) args \<Rightarrow> 's list \<Rightarrow> 'p ndarray
    \<Rightarrow> (unit, ('p, 's, 'a, 'x, 'q) event) comp" where
  "print_header a cal_states POVM_list =
     emits
      [Print ''----------------------------'' [],
       Print ''Error corrected {}.'' [PStr (method a)],
       Print ''{} qubit(s).'' [PInt (n_qubits a)],
       Print ''{} POVM calibration shots.''
         [PInt (n_calibration_shots_each a * int (length cal_states))],
       Print ''{} QST shots.'' [PInt (n_QST_shots_each a * int (length (items POVM_list)))],
       Print ''{} QST averages.'' [PInt (int (length (true_state_list a)))],
       Print ''----------------------------'' []]"

text \<open>Lines 70 to 73. Returns the value of \<open>noise_mode\<close> from line 75 on.\<close>

definition disable_noise :: "('s, 'a, 'x) args \<Rightarrow> (int, ('p, 's, 'a, 'x, 'q) event) comp" where
  "disable_noise a =
     (if bool_exp_measurements a
      then bnd (emit (Print ''Noise mode is disabled as experimental measurements are performed.'' []))
             (\<lambda>_. ret 0)
      else ret (noise_mode a))"

text \<open>Lines 75 to 84. Returns \<open>noisy_POVM_list\<close>.\<close>

definition apply_noise :: "('p, 's, 'a, 'x, 'q) env \<Rightarrow> ('s, 'a, 'x) args \<Rightarrow> int \<Rightarrow> 'p ndarray
    \<Rightarrow> ('p ndarray, ('p, 's, 'a, 'x, 'q) event) comp" where
  "apply_noise E a mode POVM_list =
     (if mode \<noteq> 0 then
        bnd (emit (Print ''Synthetic noise mode {}.'' [PInt mode])) (\<lambda>_.
        if n_qubits a = 1 then
          bnd (for_each (\<lambda>povm. call (Call_generate_noisy_POVM povm mode)
                                   (generate_noisy_POVM E povm mode))
                 (items POVM_list)) (\<lambda>noisy.
          bnd (emit (Print ''Synthetic single qubit noise mode {}.'' [PInt mode])) (\<lambda>_.
          ret (np_array POVM_list noisy)))
        else
          bnd (for_each (\<lambda>povm. call (Call_depolarized_POVM povm) (depolarized_POVM E povm))
                 (items POVM_list)) (\<lambda>noisy.
          ret (np_array POVM_list noisy)))
      else
        bnd (emit (Print ''No synthetic noise.'' [])) (\<lambda>_.
        ret POVM_list))"

text \<open>
  Everything before the calibration call: lines 36 to 84. Returns the local variables
  \<open>data_path\<close>, \<open>calibration_states\<close>, \<open>calibration_angles\<close> (if bound), \<open>POVM_list\<close>,
  \<open>noise_mode\<close> and \<open>noisy_POVM_list\<close>.
\<close>

definition pre_calibration :: "('p, 's, 'a, 'x, 'q) env \<Rightarrow> ('s, 'a, 'x) args
    \<Rightarrow> (string \<times> 's list \<times> 'a option \<times> 'p ndarray \<times> int \<times> 'p ndarray,
        ('p, 's, 'a, 'x, 'q) event) comp" where
  "pre_calibration E a =
     bnd (setup_run E a) (\<lambda>data_path.
     bnd (resolve_calibration E a) (\<lambda>(cal_states, cal_angles).
     bnd (call (Call_generate_Pauli_POVM (n_qubits a)) (generate_Pauli_POVM E (n_qubits a)))
       (\<lambda>POVM_list.
     bnd (print_header a cal_states POVM_list) (\<lambda>_.
     bnd (disable_noise a) (\<lambda>mode.
     bnd (apply_noise E a mode POVM_list) (\<lambda>noisy_POVM_list.
     ret (data_path, cal_states, cal_angles, POVM_list, mode, noisy_POVM_list)))))))"

text \<open>
  The loop of lines 107 and 108 over \<open>range(len(reconstructed_POVM_list))\<close>: the index runs
  through the reconstructed list, and \<open>noisy_POVM_list[i]\<close> raises IndexError once the
  noisy list is exhausted.
\<close>

fun distance_loop :: "('p, 's, 'a, 'x, 'q) env \<Rightarrow> 'p list \<Rightarrow> 'p list
    \<Rightarrow> (unit, ('p, 's, 'a, 'x, 'q) event) comp" where
  "distance_loop E [] ns = ret ()"
| "distance_loop E (r # rs) [] = raise IndexError"
| "distance_loop E (r # rs) (n # ns) =
     bnd (call (Call_POVM_distance r n) (POVM_distance E r n)) (\<lambda>d.
     bnd (emit (Print ''Distance between reconstructed and noisy POVM: {}'' [PReal d])) (\<lambda>_.
     distance_loop E rs ns))"

text \<open>
  Lines 85 to 110. Reading the unbound \<open>calibration_angles\<close> while the arguments of the
  call at line 87 are evaluated raises UnboundLocalError, before the call.
  Returns \<open>reconstructed_POVM_list\<close>.
\<close>

definition calibrate :: "('p, 's, 'a, 'x, 'q) env \<Rightarrow> ('s, 'a, 'x) args \<Rightarrow> string \<Rightarrow> 's list
    \<Rightarrow> 'a option \<Rightarrow> 'p ndarray \<Rightarrow> int \<Rightarrow> 'p ndarray
    \<Rightarrow> ('p ndarray, ('p, 's, 'a, 'x, 'q) event) comp" where
  "calibrate E a data_path cal_states cal_angles POVM_list mode noisy_POVM_list =
     (case cal_angles of
        None \<Rightarrow> raise UnboundLocalError
      | Some angles \<Rightarrow>
          let d = \<lparr>dt_n_qubits = n_qubits a,
                   dt_n_calibration_shots_each = n_calibration_shots_each a,
                   dt_noisy_POVM_list = noisy_POVM_list,
                   dt_calibration_states = cal_states,
                   dt_n_cores = n_cores a,
                   dt_bool_exp_meaurements = bool_exp_measurements a,
                   dt_exp_dictionary = exp_dictionary a,
                   dt_initial_guess_POVM = POVM_list,
                   dt_calibration_angles = angles\<rparr>
          in
          bnd (call (Call_device_tomography d) (device_tomography E d))
            (\<lambda>reconstructed_POVM_list.
          bnd (emit (Print ''Runtime of DT reconstruction {}'' [PElapsed])) (\<lambda>_.
          bnd (io E (Save_DT_settings (data_path @ ''/DT_settings.npy'')
                 \<lparr>ds_n_qubits = n_qubits a,
                  ds_calibration_states = cal_states,
                  ds_n_calibration_shots = n_calibration_shots_each a,
                  ds_initial_POVM = POVM_list,
                  ds_reconstructed_POVM_list = reconstructed_POVM_list,
                  ds_bool_exp_meaurements = bool_exp_measurements a,
                  ds_noise_mode = mode,
                  ds_noisy_POVM_list = noisy_POVM_list\<rparr>)) (\<lambda>_.
          bnd (distance_loop E (items reconstructed_POVM_list) (items noisy_POVM_list)) (\<lambda>_.
          bnd (emit (Print ''POVM calibration complete.\<newline>----------------------------'' []))
            (\<lambda>_.
          ret reconstructed_POVM_list))))))"

text \<open>
  Lines 120 to 123 and 133 to 136: the estimator is chosen by the string \<open>method\<close>; any
  other string runs no estimator and leaves the \<open>QST\<close> object as it is.
\<close>

definition perform :: "('p, 's, 'a, 'x, 'q) env \<Rightarrow> string \<Rightarrow> 'q \<Rightarrow> 'p ndarray option
    \<Rightarrow> ('q, ('p, 's, 'a, 'x, 'q) event) comp" where
  "perform E m q override_POVM_list =
     (if m = ''MLE'' then
        call (QST_perform_MLE q override_POVM_list) (perform_MLE E q override_POVM_list)
      else if m = ''BME'' then
        call (QST_perform_BME q override_POVM_list) (perform_BME E q override_POVM_list)
      else ret q)"

text \<open>
  Lines 112 to 139. The one \<open>QST\<close> object is the state \<open>q\<close> threaded through its method
  calls; \<open>save_QST_settings\<close> and the two accessors leave it unchanged. Returns
  \<open>corrected_infidelity\<close>, \<open>corrected_rho_estm\<close>, \<open>uncorrected_infidelity\<close> and
  \<open>uncorrected_rho_estm\<close>.
\<close>

definition estimate :: "('p, 's, 'a, 'x, 'q) env \<Rightarrow> ('s, 'a, 'x) args \<Rightarrow> string \<Rightarrow> 'p ndarray
    \<Rightarrow> int \<Rightarrow> 'p ndarray \<Rightarrow> 'p ndarray
    \<Rightarrow> (real list list \<times> 's list \<times> real list list \<times> 's list, ('p, 's, 'a, 'x, 'q) event) comp"
  where
  "estimate E a data_path POVM_list mode noisy_POVM_list reconstructed_POVM_list =
     (let qa = \<lparr>qa_POVM_list = POVM_list,
                qa_true_state_list = true_state_list a,
                qa_n_QST_shots_each = n_QST_shots_each a,
                qa_n_qubits = n_qubits a,
                qa_bool_exp_measurements = bool_exp_measurements a,
                qa_exp_dictionary = exp_dictionary a,
                qa_n_cores = n_cores a,
                qa_noise_corrected_POVM_list = reconstructed_POVM_list,
                qa_true_state_angles_list = true_state_angles_list a\<rparr>
      in
      bnd (call (QST_init qa) (QST_new E qa)) (\<lambda>q0.
      bnd (call (QST_generate_data q0 (Some noisy_POVM_list))
             (generate_data E q0 (Some noisy_POVM_list))) (\<lambda>q1.
      bnd (io E (QST_save_QST_settings q1 data_path mode)) (\<lambda>_.
      bnd (emits [Print ''Generated data.'' [], Print ''Start corrected QST.'' []]) (\<lambda>_.
      bnd (perform E (method a) q1 (Some reconstructed_POVM_list)) (\<lambda>q2.
      bnd (call (QST_get_infidelity q2) (get_infidelity E q2)) (\<lambda>corrected_infidelity.
      bnd (call (QST_get_rho_estm q2) (get_rho_estm E q2)) (\<lambda>corrected_rho_estm.
      bnd (emits [Print ''Corrected QST complete.\<newline>----------------------------'' [],
                  Print ''Start uncorrected QST.'' []]) (\<lambda>_.
      bnd (perform E (method a) q2 None) (\<lambda>q3.
      bnd (call (QST_get_infidelity q3) (get_infidelity E q3)) (\<lambda>uncorrected_infidelity.
      bnd (call (QST_get_rho_estm q3) (get_rho_estm E q3)) (\<lambda>uncorrected_rho_estm.
      bnd (emit (Print ''Uncorrected QST complete.\<newline>----------------------------'' []))
        (\<lambda>_.
      ret (corrected_infidelity, corrected_rho_estm,
           uncorrected_infidelity, uncorrected_rho_estm))))))))))))))"

text \<open>
  Lines 141 to 150. \<open>uncorrected_infidelity[0]\<close> raises IndexError on an array without
  rows, before anything is summed. Each mean is one call of \<open>np.sum\<close> and one division by
  \<open>n_averages\<close>. The four \<open>np.save\<close> calls into the one file are one log entry. Returns
  \<open>sample_step\<close>, \<open>corrected_average\<close> and \<open>uncorrected_average\<close>.
\<close>

definition aggregate :: "('p, 's, 'a, 'x, 'q) env \<Rightarrow> ('s, 'a, 'x) args \<Rightarrow> string
    \<Rightarrow> real list list \<Rightarrow> 's list \<Rightarrow> real list list \<Rightarrow> 's list
    \<Rightarrow> (nat list \<times> np_value \<times> np_value, ('p, 's, 'a, 'x, 'q) event) comp" where
  "aggregate E a data_path corrected_infidelity corrected_rho_estm
       uncorrected_infidelity uncorrected_rho_estm =
     (let n_averages = int (length (true_state_list a)) in
      case uncorrected_infidelity of
        [] \<Rightarrow> raise IndexError
      | row0 # _ \<Rightarrow>
          let sample_step = [0..<length row0] in
          bnd (call (Np_sum_axis0 corrected_infidelity) (np_sum_axis0 E corrected_infidelity))
            (\<lambda>corrected_sum.
          bnd (call (Np_true_divide corrected_sum n_averages)
                 (np_true_divide E corrected_sum n_averages)) (\<lambda>corrected_average.
          bnd (call (Np_sum_axis0 uncorrected_infidelity)
                 (np_sum_axis0 E uncorrected_infidelity)) (\<lambda>uncorrected_sum.
          bnd (call (Np_true_divide uncorrected_sum n_averages)
                 (np_true_divide E uncorrected_sum n_averages)) (\<lambda>uncorrected_average.
          bnd (io E (Save_QST_results (data_path @ ''/QST_results.npy'')
                 corrected_infidelity uncorrected_infidelity
                 corrected_rho_estm uncorrected_rho_estm)) (\<lambda>_.
          ret (sample_step, corrected_average, uncorrected_average)))))))"

text \<open>
  The slice \<open>x[k:]\<close> of a mean: the entries from index \<open>k\<close> on of an array, IndexError
  ("invalid index to scalar variable") on a scalar.
\<close>

definition np_slice :: "nat \<Rightarrow> np_value \<Rightarrow> (npfloat list, 'e) comp" where
  "np_slice k x = (case x of Np_vector v \<Rightarrow> ret (drop k v) | Np_scalar _ \<Rightarrow> raise IndexError)"

text \<open>
  Lines 154 to 176. The fits take the slices \<open>[1000:]\<close> as they are, the plots the slices
  \<open>[cutoff:]\<close>; \<open>p0\<close> is \<open>[1, -0.5]\<close>. The arguments of a call are evaluated before the
  call, so a slice that raises comes before the fit it is an argument of.
  \<open>plt.tight_layout\<close> at line 173 is not a call.
\<close>

definition fit_and_plot :: "('p, 's, 'a, 'x, 'q) env \<Rightarrow> ('s, 'a, 'x) args \<Rightarrow> string
    \<Rightarrow> nat list \<Rightarrow> np_value \<Rightarrow> np_value
    \<Rightarrow> (unit, ('p, 's, 'a, 'x, 'q) event) comp" where
  "fit_and_plot E a data_path sample_step corrected_average uncorrected_average =
     (if n_cores a < 10 \<and> method a = ''BME'' then
        let cutoff = 10; p0 = (1, - 1 / 2) in
        bnd (np_slice 1000 corrected_average) (\<lambda>ydata_corr.
        bnd (call (Call_curve_fit (drop 1000 sample_step) ydata_corr p0)
               (curve_fit E (drop 1000 sample_step) ydata_corr p0))
          (\<lambda>popt_corr.
        bnd (call (Call_power_law (drop cutoff sample_step) (fst popt_corr) (snd popt_corr))
               (power_law E (drop cutoff sample_step) (fst popt_corr) (snd popt_corr)))
          (\<lambda>corr_fit.
        bnd (np_slice 1000 uncorrected_average) (\<lambda>ydata_uncorr.
        bnd (call (Call_curve_fit (drop 1000 sample_step) ydata_uncorr p0)
               (curve_fit E (drop 1000 sample_step) ydata_uncorr p0))
          (\<lambda>popt_uncorr.
        bnd (call (Call_power_law (drop cutoff sample_step) (fst popt_uncorr) (snd popt_uncorr))
               (power_law E (drop cutoff sample_step) (fst popt_uncorr) (snd popt_uncorr)))
          (\<lambda>uncorr_fit.
        bnd (io E (Plt_call ''figure'')) (\<lambda>_.
        bnd (np_slice cutoff corrected_average) (\<lambda>shown_corr.
        bnd (io E (Plt_plot (drop cutoff sample_step) shown_corr ''r'' ''Corrected'')) (\<lambda>_.
        bnd (np_slice cutoff uncorrected_average) (\<lambda>shown_uncorr.
        bnd (io E (Plt_plot (drop cutoff sample_step) shown_uncorr ''b'' ''Uncorrected''))
          (\<lambda>_.
        bnd (io E (Plt_plot_fit (drop cutoff sample_step) corr_fit ''r--'' (snd popt_corr)))
          (\<lambda>_.
        bnd (io E (Plt_plot_fit (drop cutoff sample_step) uncorr_fit ''b--'' (snd popt_uncorr)))
          (\<lambda>_.
        bnd (io E (Plt_call ''yscale'')) (\<lambda>_.
        bnd (io E (Plt_call ''xscale'')) (\<lambda>_.
        bnd (io E (Plt_call ''xlim'')) (\<lambda>_.
        bnd (io E (Plt_call ''ylabel'')) (\<lambda>_.
        bnd (io E (Plt_call ''xlabel'')) (\<lambda>_.
        bnd (io E (Plt_call ''legend'')) (\<lambda>_.
        bnd (io E (Plt_savefig (data_path @ ''/Averaged_infidelities.png''))) (\<lambda>_.
        io E (Plt_savefig ''latest_run.png'')))))))))))))))))))))
      else ret ())"

subsection \<open>\<open>emqst\<close>\<close>

text \<open>
  The function, lines 17 to 178: its outcome is the returned triple
  \<open>(corrected_infidelity, uncorrected_infidelity, corrected_rho_estm)\<close> or the exception
  that ended the run, and beside it the log of the calls the run made.
\<close>

definition emqst :: "('p, 's, 'a, 'x, 'q) env \<Rightarrow> ('s, 'a, 'x) args
    \<Rightarrow> (real list list \<times> real list list \<times> 's list, ('p, 's, 'a, 'x, 'q) event) comp" where
  "emqst E a =
     bnd (pre_calibration E a)
       (\<lambda>(data_path, cal_states, cal_angles, POVM_list, mode, noisy_POVM_list).
     bnd (calibrate E a data_path cal_states cal_angles POVM_list mode noisy_POVM_list)
       (\<lambda>reconstructed_POVM_list.
     bnd (estimate E a data_path POVM_list mode noisy_POVM_list reconstructed_POVM_list)
       (\<lambda>(corrected_infidelity, corrected_rho_estm,
          uncorrected_infidelity, uncorrected_rho_estm).
     bnd (aggregate E a data_path corrected_infidelity corrected_rho_estm
            uncorrected_infidelity uncorrected_rho_estm)
       (\<lambda>(sample_step, corrected_average, uncorrected_average).
     bnd (fit_and_plot E a data_path sample_step corrected_average uncorrected_average) (\<lambda>_.
     ret (corrected_infidelity, uncorrected_infidelity, corrected_rho_estm))))))"

text \<open>The outcome and the log of a run.\<close>

definition outcome :: "('r, 'e) comp \<Rightarrow> exn + 'r" where
  "outcome m = fst m"

definition calls :: "('r, 'e) comp \<Rightarrow> 'e list" where
  "calls m = snd m"

subsection \<open>Reading the log\<close>

text \<open>
  The log entries sorted by what they address: a printed message, the file system, the
  providers of calibration states and of the nominal POVMs, a noise transform of the
  \<open>POVM\<close> class, the calibration stage, the \<open>QST\<close> object, the sums and quotients of
  the mean curves, the persisted results, the curve fit, the plot.
\<close>

datatype call_kind =
    K_print | K_file | K_provider | K_noise | K_calibration | K_QST | K_mean | K_results
  | K_fit | K_plot

fun kind :: "('p, 's, 'a, 'x, 'q) event \<Rightarrow> call_kind" where
  "kind (Print _ _) = K_print"
| "kind (Os_path_exists _) = K_file"
| "kind (Os_makedirs _) = K_file"
| "kind (Os_mkdir _) = K_file"
| "kind (Save_experimental_settings _ _) = K_file"
| "kind (Call_get_cailibration_states _) = K_provider"
| "kind (Call_generate_Pauli_POVM _) = K_provider"
| "kind (Call_generate_noisy_POVM _ _) = K_noise"
| "kind (Call_depolarized_POVM _) = K_noise"
| "kind (Call_device_tomography _) = K_calibration"
| "kind (Save_DT_settings _ _) = K_calibration"
| "kind (Call_POVM_distance _ _) = K_calibration"
| "kind (QST_init _) = K_QST"
| "kind (QST_generate_data _ _) = K_QST"
| "kind (QST_save_QST_settings _ _ _) = K_QST"
| "kind (QST_perform_MLE _ _) = K_QST"
| "kind (QST_perform_BME _ _) = K_QST"
| "kind (QST_get_infidelity _) = K_QST"
| "kind (QST_get_rho_estm _) = K_QST"
| "kind (Np_sum_axis0 _) = K_mean"
| "kind (Np_true_divide _ _) = K_mean"
| "kind (Save_QST_results _ _ _ _ _) = K_results"
| "kind (Call_curve_fit _ _ _) = K_fit"
| "kind (Call_power_law _ _ _) = K_fit"
| "kind (Plt_call _) = K_plot"
| "kind (Plt_plot _ _ _ _) = K_plot"
| "kind (Plt_plot_fit _ _ _ _) = K_plot"
| "kind (Plt_savefig _) = K_plot"

text \<open>The calls on the \<open>QST\<close> object in a log, in order.\<close>

definition QST_calls :: "('p, 's, 'a, 'x, 'q) event list \<Rightarrow> ('p, 's, 'a, 'x, 'q) event list" where
  "QST_calls evs = filter (\<lambda>ev. kind ev = K_QST) evs"

text \<open>
  Both tracks have completed: the message of line 139, printed once the results of the
  uncorrected track have been read, is in the log.
\<close>

definition tracks_completed :: "('p, 's, 'a, 'x, 'q) event list \<Rightarrow> bool" where
  "tracks_completed evs \<longleftrightarrow>
     Print ''Uncorrected QST complete.\<newline>----------------------------'' [] \<in> set evs"

text \<open>The value of \<open>noise_mode\<close> after line 73.\<close>

definition effective_noise_mode :: "('s, 'a, 'x) args \<Rightarrow> int" where
  "effective_noise_mode a = (if bool_exp_measurements a then 0 else noise_mode a)"

subsection \<open>The estimation track of the specification\<close>












subsection \<open>Exceptions of collaborators\<close>

text \<open>
  Some collaborator raises \<open>e\<close> on some input: every other exception a run ends in is
  raised by a statement of \<open>emqst\<close> itself.
\<close>

definition collaborator_raises :: "('p, 's, 'a, 'x, 'q) env \<Rightarrow> exn \<Rightarrow> bool" where
  "collaborator_raises E e \<longleftrightarrow>
     (\<exists>ev. io_error E ev = Some e) \<or>
     (\<exists>n. get_cailibration_states E n = Inl e) \<or>
     (\<exists>n. generate_Pauli_POVM E n = Inl e) \<or>
     (\<exists>p m. generate_noisy_POVM E p m = Inl e) \<or>
     (\<exists>p. depolarized_POVM E p = Inl e) \<or>
     (\<exists>d. device_tomography E d = Inl e) \<or>
     (\<exists>p p'. POVM_distance E p p' = Inl e) \<or>
     (\<exists>qa. QST_new E qa = Inl e) \<or>
     (\<exists>q povms. generate_data E q povms = Inl e) \<or>
     (\<exists>q povms. perform_MLE E q povms = Inl e) \<or>
     (\<exists>q povms. perform_BME E q povms = Inl e) \<or>
     (\<exists>q. get_infidelity E q = Inl e) \<or>
     (\<exists>q. get_rho_estm E q = Inl e) \<or>
     (\<exists>m. np_sum_axis0 E m = Inl e) \<or>
     (\<exists>x n. np_true_divide E x n = Inl e) \<or>
     (\<exists>xs ys p0. curve_fit E xs ys p0 = Inl e) \<or>
     (\<exists>xs c b. power_law E xs c b = Inl e)"

subsection \<open>A concrete environment\<close>

text \<open>
  The quotient of a float64 value by an integer, for the concrete environment: exact on a
  number (as float64 division is on the values of the runs below), \<open>nan\<close> or a signed
  infinity on division by zero.
\<close>

fun stub_divide :: "npfloat \<Rightarrow> int \<Rightarrow> npfloat" where
  "stub_divide (Finite x) n =
     (if n \<noteq> 0 then Finite (x / of_int n)
      else if x = 0 then NaN
      else if 0 < x then PosInf
      else NegInf)"
| "stub_divide x n = x"

text \<open>
  \<open>np.sum(m, axis=0)\<close> for the concrete environment: the scalar 0 for no rows, the vector
  of the column sums for rows of one length (exact, as float64 addition is on the values
  of the runs below), ValueError for rows of different lengths.
\<close>

definition stub_sum_axis0 :: "real list list \<Rightarrow> exn + np_value" where
  "stub_sum_axis0 m =
     (case m of
        [] \<Rightarrow> Inr (Np_scalar (Finite 0))
      | r # rs \<Rightarrow>
          if list_all (\<lambda>row. length row = length r) rs
          then Inr (Np_vector (map Finite (foldl (\<lambda>acc row. map2 (+) acc row) r rs)))
          else Inl (Exn ''ValueError''))"

text \<open>
  Stand-ins for the collaborators other than the \<open>QST\<close> object, small enough to run
  \<open>emqst\<close> on: a POVM object is a number, the three Pauli measurements are 0, 1 and 2,
  each noise transform gives a different operator for a positive mode, calibration
  reconstructs the noisy set exactly, and the fit rejects empty data as
  \<open>scipy.optimize.curve_fit\<close> does. No file-system or plotting call fails. The methods of
  the \<open>QST\<close> object are left to be filled in.
\<close>

definition stub_base :: "(nat, nat, nat, unit, 'q) env" where
  "stub_base =
     \<lparr>results_exists = True,
      dir_name = ''run'',
      io_error = (\<lambda>_. None),
      get_cailibration_states = (\<lambda>n. Inr ([0, 1, 2, 3], 0)),
      generate_Pauli_POVM = (\<lambda>n. Inr \<lparr>oid = 0, items = [0, 1, 2]\<rparr>),
      generate_noisy_POVM = (\<lambda>p m. Inr (p + 10 * nat m)),
      depolarized_POVM = (\<lambda>p. Inr (p + 100)),
      device_tomography = (\<lambda>d. Inr \<lparr>oid = 7, items = items (dt_noisy_POVM_list d)\<rparr>),
      POVM_distance = (\<lambda>p p'. Inr (if p = p' then 0 else 1)),
      QST_new = (\<lambda>qa. Inl (Exn ''NotImplementedError'')),
      generate_data = (\<lambda>q povms. Inl (Exn ''NotImplementedError'')),
      perform_MLE = (\<lambda>q povms. Inl (Exn ''NotImplementedError'')),
      perform_BME = (\<lambda>q povms. Inl (Exn ''NotImplementedError'')),
      get_infidelity = (\<lambda>q. Inl (Exn ''NotImplementedError'')),
      get_rho_estm = (\<lambda>q. Inl (Exn ''NotImplementedError'')),
      np_sum_axis0 = stub_sum_axis0,
      np_true_divide = (\<lambda>x n. Inr (case x of
                                      Np_scalar f \<Rightarrow> Np_scalar (stub_divide f n)
                                    | Np_vector v \<Rightarrow> Np_vector (map (\<lambda>f. stub_divide f n) v))),
      curve_fit = (\<lambda>xs ys p0. if ys = [] then Inl (Exn ''ValueError'') else Inr p0),
      power_law = (\<lambda>xs c b. Inr (map (\<lambda>x. c) xs))\<rparr>"

text \<open>
  The concrete environment: the track object is the list of true states with the identity
  of the operator set of its latest estimation (0, the nominal one, when none is given),
  and every trajectory has three shot counts.
\<close>

definition stub_env :: "(nat, nat, nat, unit, nat list \<times> nat option) env" where
  "stub_env =
     stub_base
     \<lparr>QST_new := (\<lambda>qa. Inr (qa_true_state_list qa, None)),
      generate_data := (\<lambda>q povms. Inr q),
      perform_MLE := (\<lambda>q povms. Inr (fst q, Some (case povms of None \<Rightarrow> 0 | Some l \<Rightarrow> oid l))),
      perform_BME := (\<lambda>q povms. Inr (fst q, Some (case povms of None \<Rightarrow> 0 | Some l \<Rightarrow> oid l))),
      get_infidelity := (\<lambda>q. Inr (map (\<lambda>s. [1, 1 / 2, 1 / 4]) (fst q))),
      get_rho_estm := (\<lambda>q. Inr (fst q))\<rparr>"


text \<open>
  One qubit, two true states, default calibration states, no noise, the MLE estimator:
  a run that completes.
\<close>

definition stub_args :: "(nat, nat, unit) args" where
  "stub_args =
     \<lparr>n_qubits = 1, n_QST_shots_each = 3, n_calibration_shots_each = 5,
      true_state_list = [4, 5], calibration_states = None,
      bool_exp_measurements = False, exp_dictionary = (), n_cores = 1,
      noise_mode = 0, true_state_angles_list = None, method = ''MLE''\<rparr>"

section \<open>Properties\<close>

subsection \<open>Outcome and log of the sequencing operators\<close>

lemma outcome_ret [simp]: "outcome (ret x) = Inr x"
  by (simp add: outcome_def ret_def)
lemma calls_ret [simp]: "calls (ret x) = []"
  by (simp add: calls_def ret_def)
lemma outcome_raise [simp]: "outcome (raise e) = Inl e"
  by (simp add: outcome_def raise_def)
lemma calls_raise [simp]: "calls (raise e) = []"
  by (simp add: calls_def raise_def)
lemma outcome_emit [simp]: "outcome (emit ev) = Inr ()"
  by (simp add: outcome_def emit_def)
lemma calls_emit [simp]: "calls (emit ev) = [ev]"
  by (simp add: calls_def emit_def)
lemma outcome_emits [simp]: "outcome (emits evs) = Inr ()"
  by (simp add: outcome_def emits_def)
lemma calls_emits [simp]: "calls (emits evs) = evs"
  by (simp add: calls_def emits_def)
lemma outcome_call [simp]: "outcome (call ev r) = r"
  by (simp add: outcome_def call_def)
lemma calls_call [simp]: "calls (call ev r) = [ev]"
  by (simp add: calls_def call_def)
lemma outcome_io: "outcome (io E ev) = (case io_error E ev of None \<Rightarrow> Inr () | Some e \<Rightarrow> Inl e)"
  by (simp add: io_def)
lemma calls_io [simp]: "calls (io E ev) = [ev]"
  by (simp add: io_def)

lemma outcome_bnd:
  "outcome (bnd m f) = (case outcome m of Inl e \<Rightarrow> Inl e | Inr x \<Rightarrow> outcome (f x))"
  by (cases m) (auto simp: outcome_def bnd_def split: sum.splits prod.splits)

lemma calls_bnd:
  "calls (bnd m f) = (case outcome m of Inl e \<Rightarrow> calls m | Inr x \<Rightarrow> calls m @ calls (f x))"
  by (cases m) (auto simp: outcome_def calls_def bnd_def split: sum.splits prod.splits)

lemma outcome_bnd_Inr [simp]:
  "outcome (bnd m f) = Inr y \<longleftrightarrow> (\<exists>x. outcome m = Inr x \<and> outcome (f x) = Inr y)"
  by (simp add: outcome_bnd split: sum.splits)

lemma mem_calls_bnd [simp]:
  "ev \<in> set (calls (bnd m f)) \<longleftrightarrow>
     ev \<in> set (calls m) \<or> (\<exists>x. outcome m = Inr x \<and> ev \<in> set (calls (f x)))"
  by (auto simp: calls_bnd split: sum.splits)

lemma calls_bnd_Inr: "outcome m = Inr x \<Longrightarrow> calls (bnd m f) = calls m @ calls (f x)"
  by (simp add: calls_bnd)

lemma calls_bnd_Inl: "outcome m = Inl e \<Longrightarrow> calls (bnd m f) = calls m"
  by (simp add: calls_bnd)

lemma outcome_bnd_Inl: "outcome m = Inl e \<Longrightarrow> outcome (bnd m f) = Inl e"
  by (simp add: outcome_bnd)

lemma outcome_io_Inr [simp]: "outcome (io E ev) = Inr u \<longleftrightarrow> io_error E ev = None"
  by (simp add: outcome_io split: option.splits)

lemma calls_np_slice [simp]: "calls (np_slice k x) = []"
  by (cases x) (simp_all add: np_slice_def)

lemma outcome_np_slice_Inr [simp]:
  "outcome (np_slice k x) = Inr y \<longleftrightarrow> (\<exists>v. x = Np_vector v \<and> y = drop k v)"
  by (cases x) (auto simp: np_slice_def)

lemma outcome_for_each_call:
  "outcome (for_each (\<lambda>x. call (ev x) (g x)) xs) = Inr ys \<longleftrightarrow> list_all2 (\<lambda>x y. g x = Inr y) xs ys"
proof (induction xs arbitrary: ys)
  case Nil
  then show ?case by auto
next
  case (Cons x xs)
  then show ?case by (cases ys) auto
qed

lemma mem_calls_for_each_call:
  "e \<in> set (calls (for_each (\<lambda>x. call (ev x) (g x)) xs)) \<Longrightarrow> \<exists>x\<in>set xs. e = ev x"
  by (induction xs) auto

lemma mem_calls_distance_loop:
  "e \<in> set (calls (distance_loop E rs ns)) \<Longrightarrow>
     (\<exists>r n. e = Call_POVM_distance r n) \<or> (\<exists>s d. e = Print s [PReal d])"
  by (induction E rs ns rule: distance_loop.induct) auto

subsection \<open>The stages\<close>

lemma kind_setup_run: "e \<in> set (calls (setup_run E a)) \<Longrightarrow> kind e \<in> {K_print, K_file}"
  by (auto simp: setup_run_def Let_def split: if_splits)

lemma outcome_setup_run:
  "outcome (setup_run E a) = Inr dp \<Longrightarrow> dp = ''results/'' @ dir_name E"
  by (auto simp: setup_run_def Let_def split: if_splits)

lemma kind_resolve_calibration:
  "e \<in> set (calls (resolve_calibration E a)) \<Longrightarrow> kind e = K_provider"
  by (auto simp: resolve_calibration_def split: option.splits)

lemma outcome_resolve_calibration:
  "outcome (resolve_calibration E a) = Inr (cs, ang) \<longleftrightarrow>
     (case calibration_states a of
        None \<Rightarrow> \<exists>angles. get_cailibration_states E (n_qubits a) = Inr (cs, angles) \<and> ang = Some angles
      | Some cs' \<Rightarrow> cs = cs' \<and> ang = None)"
  by (auto simp: resolve_calibration_def split: option.splits)

lemma outcome_disable_noise:
  "outcome (disable_noise a) = Inr mode \<longleftrightarrow> mode = effective_noise_mode a"
  by (auto simp: disable_noise_def effective_noise_mode_def)

lemma calls_disable_noise:
  "calls (disable_noise a) =
     (if bool_exp_measurements a
      then [Print ''Noise mode is disabled as experimental measurements are performed.'' []]
      else [])"
  by (auto simp: disable_noise_def calls_bnd)

lemma outcome_apply_noise:
  "outcome (apply_noise E a mode pl) = Inr noisy \<longleftrightarrow>
     (if mode = 0 then noisy = pl
      else oid noisy = Suc (oid pl) \<and>
           (if n_qubits a = 1
            then list_all2 (\<lambda>p p'. generate_noisy_POVM E p mode = Inr p') (items pl) (items noisy)
            else list_all2 (\<lambda>p p'. depolarized_POVM E p = Inr p') (items pl) (items noisy)))"
  by (cases noisy) (auto simp: apply_noise_def outcome_for_each_call np_array_def)

lemma mem_calls_apply_noise:
  "e \<in> set (calls (apply_noise E a mode pl)) \<Longrightarrow>
     kind e = K_print \<or>
     (mode \<noteq> 0 \<and> (if n_qubits a = 1 then \<exists>p. e = Call_generate_noisy_POVM p mode
                   else \<exists>p. e = Call_depolarized_POVM p))"
  by (auto simp: apply_noise_def split: if_splits dest!: mem_calls_for_each_call)

lemma outcome_pre_calibration:
  "outcome (pre_calibration E a) = Inr (dp, cs, ang, pl, mode, noisy) \<Longrightarrow>
     dp = ''results/'' @ dir_name E \<and>
     outcome (resolve_calibration E a) = Inr (cs, ang) \<and>
     generate_Pauli_POVM E (n_qubits a) = Inr pl \<and>
     mode = effective_noise_mode a \<and>
     outcome (apply_noise E a mode pl) = Inr noisy"
  by (auto simp: pre_calibration_def print_header_def outcome_disable_noise
           dest: outcome_setup_run)

lemma mem_calls_pre_calibration:
  "e \<in> set (calls (pre_calibration E a)) \<Longrightarrow>
     kind e \<in> {K_print, K_file, K_provider} \<or>
     (effective_noise_mode a \<noteq> 0 \<and>
      (if n_qubits a = 1 then \<exists>p. e = Call_generate_noisy_POVM p (effective_noise_mode a)
       else \<exists>p. e = Call_depolarized_POVM p))"
  by (auto simp: pre_calibration_def print_header_def outcome_disable_noise calls_disable_noise
           dest!: kind_setup_run kind_resolve_calibration mem_calls_apply_noise
           split: if_splits)

lemma kind_pre_calibration:
  "e \<in> set (calls (pre_calibration E a)) \<Longrightarrow> kind e \<in> {K_print, K_file, K_provider, K_noise}"
  by (drule mem_calls_pre_calibration) (auto split: if_splits)

lemma calls_calibrate_unbound [simp]:
  "calls (calibrate E a dp cs None pl mode noisy) = []"
  by (simp add: calibrate_def)

lemma outcome_calibrate_unbound [simp]:
  "outcome (calibrate E a dp cs None pl mode noisy) = Inl UnboundLocalError"
  by (simp add: calibrate_def)

lemma kind_calibrate:
  "e \<in> set (calls (calibrate E a dp cs ang pl mode noisy)) \<Longrightarrow> kind e \<in> {K_print, K_calibration}"
  by (auto simp: calibrate_def Let_def split: option.splits dest!: mem_calls_distance_loop)

lemma mem_calls_calibrate_dt:
  "Call_device_tomography d \<in> set (calls (calibrate E a dp cs ang pl mode noisy)) \<Longrightarrow>
     dt_noisy_POVM_list d = noisy \<and> dt_initial_guess_POVM d = pl \<and> dt_calibration_states d = cs \<and>
     ang = Some (dt_calibration_angles d)"
  by (auto simp: calibrate_def Let_def split: option.splits dest!: mem_calls_distance_loop)

lemma mem_calls_calibrate_settings:
  "Save_DT_settings path s \<in> set (calls (calibrate E a dp cs ang pl mode noisy)) \<Longrightarrow>
     ds_noisy_POVM_list s = noisy \<and> ds_initial_POVM s = pl \<and> ds_noise_mode s = mode"
  by (auto simp: calibrate_def Let_def split: option.splits dest!: mem_calls_distance_loop)

lemma kind_perform: "e \<in> set (calls (perform E m q ov)) \<Longrightarrow> kind e = K_QST"
  by (auto simp: perform_def split: if_splits)

lemma kind_estimate:
  "e \<in> set (calls (estimate E a dp pl mode noisy recon)) \<Longrightarrow> kind e \<in> {K_print, K_QST}"
  by (auto simp: estimate_def Let_def dest!: kind_perform)

lemma kind_aggregate:
  "e \<in> set (calls (aggregate E a dp ci cr ui ur)) \<Longrightarrow> kind e \<in> {K_mean, K_results}"
  by (auto simp: aggregate_def Let_def split: list.splits)

lemma kind_fit_and_plot:
  "e \<in> set (calls (fit_and_plot E a dp ss ca ua)) \<Longrightarrow> kind e \<in> {K_fit, K_plot}"
  by (auto simp: fit_and_plot_def Let_def split: if_splits)

subsection \<open>The whole run\<close>

lemma outcome_emqst_Inr:
  "outcome (emqst E a) = Inr res \<longleftrightarrow>
     (\<exists>dp cs ang pl mode noisy recon ci cr ui ur ss ca ua.
        outcome (pre_calibration E a) = Inr (dp, cs, ang, pl, mode, noisy) \<and>
        outcome (calibrate E a dp cs ang pl mode noisy) = Inr recon \<and>
        outcome (estimate E a dp pl mode noisy recon) = Inr (ci, cr, ui, ur) \<and>
        outcome (aggregate E a dp ci cr ui ur) = Inr (ss, ca, ua) \<and>
        outcome (fit_and_plot E a dp ss ca ua) = Inr () \<and>
        res = (ci, ui, cr))"
  by (auto simp: emqst_def)

lemma mem_calls_emqst:
  "e \<in> set (calls (emqst E a)) \<longleftrightarrow>
     e \<in> set (calls (pre_calibration E a)) \<or>
     (\<exists>dp cs ang pl mode noisy.
        outcome (pre_calibration E a) = Inr (dp, cs, ang, pl, mode, noisy) \<and>
        (e \<in> set (calls (calibrate E a dp cs ang pl mode noisy)) \<or>
         (\<exists>recon.
            outcome (calibrate E a dp cs ang pl mode noisy) = Inr recon \<and>
            (e \<in> set (calls (estimate E a dp pl mode noisy recon)) \<or>
             (\<exists>ci cr ui ur.
                outcome (estimate E a dp pl mode noisy recon) = Inr (ci, cr, ui, ur) \<and>
                (e \<in> set (calls (aggregate E a dp ci cr ui ur)) \<or>
                 (\<exists>ss ca ua.
                    outcome (aggregate E a dp ci cr ui ur) = Inr (ss, ca, ua) \<and>
                    e \<in> set (calls (fit_and_plot E a dp ss ca ua)))))))))"
  by (simp add: emqst_def)

lemma marker_not_in_pre_calibration:
  "\<not> tracks_completed (calls (pre_calibration E a))"
  by (auto simp: tracks_completed_def pre_calibration_def setup_run_def resolve_calibration_def
        print_header_def disable_noise_def apply_noise_def Let_def
        split: if_splits option.splits dest!: mem_calls_for_each_call)

lemma marker_not_in_calibrate:
  "\<not> tracks_completed (calls (calibrate E a dp cs ang pl mode noisy))"
  by (auto simp: tracks_completed_def calibrate_def Let_def
        split: option.splits dest!: mem_calls_distance_loop)

lemma marker_in_estimate:
  "tracks_completed (calls (estimate E a dp pl mode noisy recon)) \<Longrightarrow>
     \<exists>ci cr ui ur. outcome (estimate E a dp pl mode noisy recon) = Inr (ci, cr, ui, ur)"
  by (auto simp: tracks_completed_def estimate_def Let_def perform_def split: if_splits)



lemma tracks_completed_emqst:
  assumes "tracks_completed (calls (emqst E a))"
  shows "\<exists>dp cs ang pl mode noisy recon ci cr ui ur.
           outcome (pre_calibration E a) = Inr (dp, cs, ang, pl, mode, noisy) \<and>
           outcome (calibrate E a dp cs ang pl mode noisy) = Inr recon \<and>
           outcome (estimate E a dp pl mode noisy recon) = Inr (ci, cr, ui, ur)"
proof -
  let ?m = "Print ''Uncorrected QST complete.\<newline>----------------------------'' []
              :: ('a, 'b, 'c, 'd, 'e) event"
  have m: "?m \<in> set (calls (emqst E a))"
    using assms by (simp add: tracks_completed_def)
  have k: "kind ?m = K_print" by simp
  from m show ?thesis
    unfolding mem_calls_emqst
    using marker_not_in_pre_calibration [of E a] marker_not_in_calibrate [of E a]
      marker_in_estimate [of E a] k
    by (fastforce simp: tracks_completed_def dest: kind_aggregate kind_fit_and_plot)
qed

lemma QST_calls_append [simp]: "QST_calls (xs @ ys) = QST_calls xs @ QST_calls ys"
  by (simp add: QST_calls_def)


lemma filter_perform:
  "filter (\<lambda>ev. kind ev = K_QST) (calls (perform E m q ov)) = calls (perform E m q ov)"
  by (simp add: perform_def)

lemma QST_calls_perform [simp]: "QST_calls (calls (perform E m q ov)) = calls (perform E m q ov)"
  by (simp add: QST_calls_def perform_def)

lemma outcome_estimate:
  assumes "outcome (estimate E a dp pl mode noisy recon) = Inr (ci, cr, ui, ur)"
  shows "\<exists>qa q0 q1 q2 q3.
           qa_POVM_list qa = pl \<and> qa_noise_corrected_POVM_list qa = recon \<and>
           qa_true_state_list qa = true_state_list a \<and>
           QST_new E qa = Inr q0 \<and>
           generate_data E q0 (Some noisy) = Inr q1 \<and>
           outcome (perform E (method a) q1 (Some recon)) = Inr q2 \<and>
           get_infidelity E q2 = Inr ci \<and> get_rho_estm E q2 = Inr cr \<and>
           outcome (perform E (method a) q2 None) = Inr q3 \<and>
           get_infidelity E q3 = Inr ui \<and> get_rho_estm E q3 = Inr ur \<and>
           QST_calls (calls (estimate E a dp pl mode noisy recon)) =
             [QST_init qa, QST_generate_data q0 (Some noisy), QST_save_QST_settings q1 dp mode] @
             calls (perform E (method a) q1 (Some recon)) @
             [QST_get_infidelity q2, QST_get_rho_estm q2] @
             calls (perform E (method a) q2 None) @
             [QST_get_infidelity q3, QST_get_rho_estm q3]"
proof -
  let ?qa = "\<lparr>qa_POVM_list = pl,
              qa_true_state_list = true_state_list a,
              qa_n_QST_shots_each = n_QST_shots_each a,
              qa_n_qubits = n_qubits a,
              qa_bool_exp_measurements = bool_exp_measurements a,
              qa_exp_dictionary = exp_dictionary a,
              qa_n_cores = n_cores a,
              qa_noise_corrected_POVM_list = recon,
              qa_true_state_angles_list = true_state_angles_list a\<rparr>"
  from assms obtain q0 q1 q2 q3 where
    q: "QST_new E ?qa = Inr q0" "generate_data E q0 (Some noisy) = Inr q1"
      "io_error E (QST_save_QST_settings q1 dp mode) = None"
      "outcome (perform E (method a) q1 (Some recon)) = Inr q2"
      "get_infidelity E q2 = Inr ci" "get_rho_estm E q2 = Inr cr"
      "outcome (perform E (method a) q2 None) = Inr q3"
      "get_infidelity E q3 = Inr ui" "get_rho_estm E q3 = Inr ur"
    by (auto simp: estimate_def Let_def)
  have "QST_calls (calls (estimate E a dp pl mode noisy recon)) =
          [QST_init ?qa, QST_generate_data q0 (Some noisy), QST_save_QST_settings q1 dp mode] @
          calls (perform E (method a) q1 (Some recon)) @
          [QST_get_infidelity q2, QST_get_rho_estm q2] @
          calls (perform E (method a) q2 None) @
          [QST_get_infidelity q3, QST_get_rho_estm q3]"
    using q by (simp add: estimate_def Let_def calls_bnd_Inr QST_calls_def filter_perform)
  with q show ?thesis
    by (intro exI [of _ ?qa] exI [of _ q0] exI [of _ q1] exI [of _ q2] exI [of _ q3]) simp
qed




lemma noise_calls_emqst:
  assumes "e \<in> set (calls (emqst E a))" and "kind e = K_noise"
  shows "effective_noise_mode a \<noteq> 0 \<and>
         (if n_qubits a = 1 then \<exists>p. e = Call_generate_noisy_POVM p (effective_noise_mode a)
          else \<exists>p. e = Call_depolarized_POVM p)"
proof -
  from assms(1) have "e \<in> set (calls (pre_calibration E a))"
    unfolding mem_calls_emqst using assms(2)
    by (auto dest: kind_calibrate kind_estimate kind_aggregate kind_fit_and_plot)
  with assms(2) show ?thesis
    by (auto dest!: mem_calls_pre_calibration)
qed

lemma device_tomography_call_emqst:
  assumes "Call_device_tomography d \<in> set (calls (emqst E a))"
  shows "\<exists>dp cs ang mode.
           outcome (pre_calibration E a) =
             Inr (dp, cs, ang, dt_initial_guess_POVM d, mode, dt_noisy_POVM_list d)"
proof -
  from assms show ?thesis
    unfolding mem_calls_emqst
    by (auto dest: kind_pre_calibration kind_estimate kind_aggregate kind_fit_and_plot
          dest!: mem_calls_calibrate_dt)
qed

lemma DT_settings_emqst:
  assumes "Save_DT_settings path s \<in> set (calls (emqst E a))"
  shows "\<exists>dp cs ang.
           outcome (pre_calibration E a) =
             Inr (dp, cs, ang, ds_initial_POVM s, ds_noise_mode s, ds_noisy_POVM_list s)"
proof -
  from assms show ?thesis
    unfolding mem_calls_emqst
    by (auto dest: kind_pre_calibration kind_estimate kind_aggregate kind_fit_and_plot
          dest!: mem_calls_calibrate_settings)
qed

lemma save_QST_settings_emqst:
  assumes "QST_save_QST_settings q path m \<in> set (calls (emqst E a))"
  shows "m = effective_noise_mode a"
proof -
  have est: "m = mode"
    if "QST_save_QST_settings q path m \<in> set (calls (estimate E a dp pl mode noisy recon))"
    for dp pl mode noisy recon
    using that by (auto simp: estimate_def Let_def perform_def split: if_splits)
  from assms show ?thesis
    unfolding mem_calls_emqst
    by (auto dest: kind_pre_calibration kind_calibrate kind_aggregate kind_fit_and_plot est
          dest!: outcome_pre_calibration)
qed

lemma warning_pre_calibration:
  assumes "bool_exp_measurements a" and "outcome (pre_calibration E a) = Inr x"
  shows "Print ''Noise mode is disabled as experimental measurements are performed.'' []
           \<in> set (calls (pre_calibration E a))"
  using assms by (auto simp: pre_calibration_def calls_disable_noise)

lemma aggregate_empty [simp]:
  "outcome (aggregate E a dp ci cr [] ur) = Inl IndexError"
  "calls (aggregate E a dp ci cr [] ur) = []"
  by (simp_all add: aggregate_def)

lemma QST_calls_subset: "e \<in> set (QST_calls evs) \<Longrightarrow> e \<in> set evs"
  by (simp add: QST_calls_def)

lemma save_QST_results_emqst:
  assumes "Save_QST_results path ci ui cr ur \<in> set (calls (emqst E a))"
  shows "\<exists>dp cs ang pl mode noisy recon row0 rest.
           outcome (pre_calibration E a) = Inr (dp, cs, ang, pl, mode, noisy) \<and>
           outcome (calibrate E a dp cs ang pl mode noisy) = Inr recon \<and>
           outcome (estimate E a dp pl mode noisy recon) = Inr (ci, cr, ui, ur) \<and>
           path = dp @ ''/QST_results.npy'' \<and> ui = row0 # rest"
proof -
  have agg: "path = dp @ ''/QST_results.npy'' \<and> ci = ci' \<and> ui = ui' \<and> cr = cr' \<and> ur = ur' \<and>
         (\<exists>row0 rest. ui = row0 # rest)"
    if "Save_QST_results path ci ui cr ur \<in> set (calls (aggregate E a dp ci' cr' ui' ur'))"
    for dp ci' cr' ui' ur'
    using that by (auto simp: aggregate_def Let_def split: list.splits)
  from assms show ?thesis
    unfolding mem_calls_emqst
    by (auto dest: kind_pre_calibration kind_calibrate kind_estimate kind_fit_and_plot
          dest!: agg)
qed

lemma outcome_aggregate:
  "outcome (aggregate E a dp ci cr (row0 # rest) ur) = Inr (ss, ca, ua) \<longleftrightarrow>
     (\<exists>csum usum.
        np_sum_axis0 E ci = Inr csum \<and>
        np_true_divide E csum (int (length (true_state_list a))) = Inr ca \<and>
        np_sum_axis0 E (row0 # rest) = Inr usum \<and>
        np_true_divide E usum (int (length (true_state_list a))) = Inr ua) \<and>
     io_error E (Save_QST_results (dp @ ''/QST_results.npy'') ci (row0 # rest) cr ur) = None \<and>
     ss = [0..<length row0]"
  by (auto simp: aggregate_def Let_def)

lemma calls_aggregate_saved:
  assumes "Save_QST_results path ci' ui' cr' ur' \<in> set (calls (aggregate E a dp ci cr ui ur))"
  shows "\<exists>csum ca usum ua.
           np_sum_axis0 E ci = Inr csum \<and>
           np_true_divide E csum (int (length (true_state_list a))) = Inr ca \<and>
           np_sum_axis0 E ui = Inr usum \<and>
           np_true_divide E usum (int (length (true_state_list a))) = Inr ua \<and>
           calls (aggregate E a dp ci cr ui ur) =
             [Np_sum_axis0 ci, Np_true_divide csum (int (length (true_state_list a))),
              Np_sum_axis0 ui, Np_true_divide usum (int (length (true_state_list a))),
              Save_QST_results (dp @ ''/QST_results.npy'') ci ui cr ur]"
  using assms
  by (auto simp: aggregate_def Let_def calls_bnd split: list.splits sum.splits)

lemma calls_fit_and_plot_vector:
  assumes "n_cores a < 10" and "method a = ''BME''"
  shows "\<exists>post. calls (fit_and_plot E a dp ss (Np_vector v) ua) =
           Call_curve_fit (drop 1000 ss) (drop 1000 v) (1, - 1 / 2) # post"
  using assms
  by (simp add: fit_and_plot_def Let_def np_slice_def calls_bnd split: sum.splits)

lemma outcome_fit_and_plot_vector:
  assumes "n_cores a < 10" and "method a = ''BME''"
    and "outcome (fit_and_plot E a dp ss (Np_vector v) ua) = Inr u"
  shows "\<exists>popt. curve_fit E (drop 1000 ss) (drop 1000 v) (1, - 1 / 2) = Inr popt"
  using assms by (auto simp: fit_and_plot_def Let_def np_slice_def)

lemma fit_and_plot_scalar:
  assumes "n_cores a < 10" and "method a = ''BME''"
  shows "calls (fit_and_plot E a dp ss (Np_scalar x) ua) = []"
    and "outcome (fit_and_plot E a dp ss (Np_scalar x) ua) = Inl IndexError"
  using assms by (simp_all add: fit_and_plot_def Let_def np_slice_def calls_bnd outcome_bnd)

lemma calls_emqst_aggregated:
  assumes "outcome (pre_calibration E a) = Inr (dp, cs, ang, pl, mode, noisy)"
    and "outcome (calibrate E a dp cs ang pl mode noisy) = Inr recon"
    and "outcome (estimate E a dp pl mode noisy recon) = Inr (ci, cr, ui, ur)"
    and "outcome (aggregate E a dp ci cr ui ur) = Inr (ss, ca, ua)"
  shows "calls (emqst E a) =
           calls (pre_calibration E a) @ calls (calibrate E a dp cs ang pl mode noisy) @
           calls (estimate E a dp pl mode noisy recon) @ calls (aggregate E a dp ci cr ui ur) @
           calls (fit_and_plot E a dp ss ca ua)"
    and "outcome (emqst E a) =
           (case outcome (fit_and_plot E a dp ss ca ua) of
              Inl e \<Rightarrow> Inl e
            | Inr u \<Rightarrow> Inr (ci, ui, cr))"
  using assms by (simp_all add: emqst_def calls_bnd outcome_bnd split: sum.splits)

lemma save_QST_results_aggregate:
  assumes "Save_QST_results path ci ui cr ur \<in> set (calls (emqst E a))"
  shows "\<exists>dp cs ang pl mode noisy recon row0 rest csum ca usum ua.
           outcome (pre_calibration E a) = Inr (dp, cs, ang, pl, mode, noisy) \<and>
           outcome (calibrate E a dp cs ang pl mode noisy) = Inr recon \<and>
           outcome (estimate E a dp pl mode noisy recon) = Inr (ci, cr, ui, ur) \<and>
           path = dp @ ''/QST_results.npy'' \<and> ui = row0 # rest \<and>
           np_sum_axis0 E ci = Inr csum \<and>
           np_true_divide E csum (int (length (true_state_list a))) = Inr ca \<and>
           np_sum_axis0 E ui = Inr usum \<and>
           np_true_divide E usum (int (length (true_state_list a))) = Inr ua \<and>
           calls (aggregate E a dp ci cr ui ur) =
             [Np_sum_axis0 ci, Np_true_divide csum (int (length (true_state_list a))),
              Np_sum_axis0 ui, Np_true_divide usum (int (length (true_state_list a))),
              Save_QST_results path ci ui cr ur]"
proof -
  from save_QST_results_emqst [OF assms] obtain dp cs ang pl mode noisy recon row0 rest where
    st: "outcome (pre_calibration E a) = Inr (dp, cs, ang, pl, mode, noisy)"
      "outcome (calibrate E a dp cs ang pl mode noisy) = Inr recon"
      "outcome (estimate E a dp pl mode noisy recon) = Inr (ci, cr, ui, ur)"
    and path: "path = dp @ ''/QST_results.npy''" and ui: "ui = row0 # rest"
    by blast
  have "Save_QST_results path ci ui cr ur \<in> set (calls (aggregate E a dp ci cr ui ur))"
  proof -
    have other: "Save_QST_results path ci ui cr ur \<notin> set evs"
      if "\<And>e. e \<in> set evs \<Longrightarrow> kind e \<noteq> K_results" for evs :: "('a, 'b, 'c, 'd, 'e) event list"
      using that by force
    have 1: "Save_QST_results path ci ui cr ur \<notin> set (calls (pre_calibration E a))"
      by (rule other) (auto dest: kind_pre_calibration)
    have 2: "Save_QST_results path ci ui cr ur
               \<notin> set (calls (calibrate E a dp cs ang pl mode noisy))"
      by (rule other) (auto dest: kind_calibrate)
    have 3: "Save_QST_results path ci ui cr ur
               \<notin> set (calls (estimate E a dp pl mode noisy recon))"
      by (rule other) (auto dest: kind_estimate)
    have 4: "Save_QST_results path ci ui cr ur \<notin> set (calls (fit_and_plot E a dp ss ca ua))"
      for ss ca ua
      by (rule other) (auto dest: kind_fit_and_plot)
    from assms st 1 2 3 4 show ?thesis
      unfolding mem_calls_emqst by auto
  qed
  from calls_aggregate_saved [OF this] st path ui show ?thesis
    by blast
qed

subsection \<open>The track of the specification\<close>





subsection \<open>Exceptions raised by \<open>emqst\<close> itself\<close>

lemma outcome_bnd_Inl_iff:
  "outcome (bnd m f) = Inl e \<longleftrightarrow>
     outcome m = Inl e \<or> (\<exists>x. outcome m = Inr x \<and> outcome (f x) = Inl e)"
  by (simp add: outcome_bnd split: sum.splits)

lemma outcome_io_Inl: "outcome (io E ev) = Inl e \<longleftrightarrow> io_error E ev = Some e"
  by (simp add: outcome_io split: option.splits)

lemma for_each_call_Inl:
  "outcome (for_each (\<lambda>x. call (ev x) (g x)) xs) = Inl e \<Longrightarrow> \<exists>x. g x = Inl e"
  by (induction xs) (auto simp: outcome_bnd_Inl_iff)

lemma distance_loop_Inl:
  "outcome (distance_loop E rs ns) = Inl e \<Longrightarrow>
     e = IndexError \<or> (\<exists>p p'. POVM_distance E p p' = Inl e)"
  by (induction E rs ns rule: distance_loop.induct) (auto simp: outcome_bnd_Inl_iff)

lemma pre_calibration_Inl:
  "outcome (pre_calibration E a) = Inl e \<Longrightarrow> collaborator_raises E e"
  by (auto simp: pre_calibration_def setup_run_def resolve_calibration_def print_header_def
        disable_noise_def apply_noise_def Let_def outcome_bnd_Inl_iff outcome_io_Inl
        collaborator_raises_def
        split: if_splits option.splits dest!: for_each_call_Inl)

lemma calibrate_Inl:
  "outcome (calibrate E a dp cs ang pl mode noisy) = Inl e \<Longrightarrow>
     e = UnboundLocalError \<or> e = IndexError \<or> collaborator_raises E e"
  by (auto simp: calibrate_def Let_def outcome_bnd_Inl_iff outcome_io_Inl collaborator_raises_def
        split: option.splits dest!: distance_loop_Inl)

lemma estimate_Inl:
  "outcome (estimate E a dp pl mode noisy recon) = Inl e \<Longrightarrow> collaborator_raises E e"
  by (auto simp: estimate_def perform_def Let_def outcome_bnd_Inl_iff outcome_io_Inl
        collaborator_raises_def split: if_splits)

lemma aggregate_Inl:
  "outcome (aggregate E a dp ci cr ui ur) = Inl e \<Longrightarrow> e = IndexError \<or> collaborator_raises E e"
  by (auto simp: aggregate_def Let_def outcome_bnd_Inl_iff outcome_io_Inl collaborator_raises_def
        split: list.splits)

lemma np_slice_Inl: "outcome (np_slice k x) = Inl e \<Longrightarrow> e = IndexError"
  by (cases x) (simp_all add: np_slice_def)

lemma fit_and_plot_Inl:
  "outcome (fit_and_plot E a dp ss ca ua) = Inl e \<Longrightarrow> e = IndexError \<or> collaborator_raises E e"
  by (auto simp: fit_and_plot_def Let_def outcome_bnd_Inl_iff outcome_io_Inl
        collaborator_raises_def split: if_splits dest!: np_slice_Inl)

lemma emqst_Inl:
  "outcome (emqst E a) = Inl e \<Longrightarrow>
     e = UnboundLocalError \<or> e = IndexError \<or> collaborator_raises E e"
  by (auto simp: emqst_def outcome_bnd_Inl_iff
        dest: pre_calibration_Inl calibrate_Inl estimate_Inl aggregate_Inl fit_and_plot_Inl)

subsection \<open>Runs of the concrete environment\<close>

text \<open>The definitions that a run on the concrete environment is evaluated with.\<close>

lemmas run_defs = emqst_def pre_calibration_def setup_run_def resolve_calibration_def
  print_header_def disable_noise_def apply_noise_def calibrate_def estimate_def perform_def
  aggregate_def fit_and_plot_def np_slice_def np_array_def
  bnd_def ret_def raise_def emit_def emits_def call_def io_def outcome_def calls_def Let_def
  stub_env_def stub_base_def stub_sum_axis0_def stub_args_def


section \<open>The claims\<close>



text \<open>
  Claim C2, as the code has it. With a noise mode other than 0 (and no experimental
  measurements) on a system of other than one qubit, \<open>emqst\<close> does not reject any mode:
  whatever the mode, the only noise transform it calls is \<open>depolarized_POVM\<close>, the noisy
  set is the nominal set with every operator depolarized, and that set is what calibration
  receives. A run can end in UnsupportedNoiseError only if a collaborator raises it.
\<close>

theorem multi_qubit_noise_is_depolarizing:
  assumes "effective_noise_mode a \<noteq> 0" and "n_qubits a \<noteq> 1"
  shows "(\<forall>ev\<in>set (calls (emqst E a)). kind ev = K_noise \<longrightarrow> (\<exists>p. ev = Call_depolarized_POVM p)) \<and>
         (\<forall>dp cs ang pl mode noisy.
            outcome (pre_calibration E a) = Inr (dp, cs, ang, pl, mode, noisy) \<longrightarrow>
            list_all2 (\<lambda>p p'. depolarized_POVM E p = Inr p') (items pl) (items noisy)) \<and>
         (\<forall>d. Call_device_tomography d \<in> set (calls (emqst E a)) \<longrightarrow>
            list_all2 (\<lambda>p p'. depolarized_POVM E p = Inr p')
              (items (dt_initial_guess_POVM d)) (items (dt_noisy_POVM_list d))) \<and>
         (outcome (emqst E a) = Inl UnsupportedNoiseError \<longrightarrow>
            collaborator_raises E UnsupportedNoiseError)"
proof -
  have own: "collaborator_raises E UnsupportedNoiseError"
    if "outcome (emqst E a) = Inl UnsupportedNoiseError"
    using emqst_Inl [OF that]
    by (simp add: UnsupportedNoiseError_def UnboundLocalError_def IndexError_def)
  have dep: "list_all2 (\<lambda>p p'. depolarized_POVM E p = Inr p') (items pl) (items noisy)"
    if "outcome (pre_calibration E a) = Inr (dp, cs, ang, pl, mode, noisy)"
    for dp cs ang pl mode noisy
    using outcome_pre_calibration [OF that] assms by (simp add: outcome_apply_noise)
  have "\<exists>p. ev = Call_depolarized_POVM p"
    if "ev \<in> set (calls (emqst E a))" "kind ev = K_noise" for ev
    using noise_calls_emqst [OF that] assms by simp
  moreover have "list_all2 (\<lambda>p p'. depolarized_POVM E p = Inr p')
              (items (dt_initial_guess_POVM d)) (items (dt_noisy_POVM_list d))"
    if "Call_device_tomography d \<in> set (calls (emqst E a))" for d
    using device_tomography_call_emqst [OF that] dep by blast
  ultimately show ?thesis
    using dep own by blast
qed

theorem multi_qubit_noise_witness:
  "effective_noise_mode (stub_args\<lparr>n_qubits := 2, noise_mode := 3\<rparr>) \<noteq> 0 \<and>
   n_qubits (stub_args\<lparr>n_qubits := 2, noise_mode := 3\<rparr>) \<noteq> 1 \<and>
   list_all2 (\<lambda>p p'. depolarized_POVM stub_env p = Inr p') [0, 1, 2] [100, 101, 102] \<and>
   outcome (pre_calibration stub_env (stub_args\<lparr>n_qubits := 2, noise_mode := 3\<rparr>)) =
     Inr (''results/run'', [0, 1, 2, 3], Some 0, \<lparr>oid = 0, items = [0, 1, 2]\<rparr>, 3,
          \<lparr>oid = 1, items = [100, 101, 102]\<rparr>)"
proof -
  let ?a = "stub_args\<lparr>n_qubits := 2, noise_mode := 3\<rparr>"
  have h: "effective_noise_mode ?a \<noteq> 0" "n_qubits ?a \<noteq> 1"
    by (simp_all add: effective_noise_mode_def stub_args_def)
  have p: "outcome (pre_calibration stub_env ?a) =
     Inr (''results/run'', [0, 1, 2, 3], Some 0, \<lparr>oid = 0, items = [0, 1, 2]\<rparr>, 3,
          \<lparr>oid = 1, items = [100, 101, 102]\<rparr>)"
    by (simp add: run_defs)
  from multi_qubit_noise_is_depolarizing [OF h, of stub_env] p
  have "list_all2 (\<lambda>p p'. depolarized_POVM stub_env p = Inr p')
          (items \<lparr>oid = 0, items = [0, 1, 2]\<rparr>) (items \<lparr>oid = 1, items = [100, 101, 102]\<rparr>)"
    by blast
  with h p show ?thesis
    by simp
qed

text \<open>
  Claim C2 as stated fails: two qubits with noise mode 1 and with noise mode 2 (at most
  one of which can be "the depolarizing mode") both run to completion.
\<close>

theorem multi_qubit_noise_counterexample:
  "n_qubits (stub_args\<lparr>n_qubits := 2, noise_mode := 1\<rparr>) > 1 \<and>
   outcome (emqst stub_env (stub_args\<lparr>n_qubits := 2, noise_mode := 1\<rparr>)) =
     Inr ([[1, 1 / 2, 1 / 4], [1, 1 / 2, 1 / 4]], [[1, 1 / 2, 1 / 4], [1, 1 / 2, 1 / 4]], [4, 5]) \<and>
   outcome (emqst stub_env (stub_args\<lparr>n_qubits := 2, noise_mode := 2\<rparr>)) =
     Inr ([[1, 1 / 2, 1 / 4], [1, 1 / 2, 1 / 4]], [[1, 1 / 2, 1 / 4], [1, 1 / 2, 1 / 4]], [4, 5]) \<and>
   outcome (emqst stub_env (stub_args\<lparr>n_qubits := 2, noise_mode := 1\<rparr>)) \<noteq> Inl UnsupportedNoiseError \<and>
   outcome (emqst stub_env (stub_args\<lparr>n_qubits := 2, noise_mode := 2\<rparr>)) \<noteq> Inl UnsupportedNoiseError"
  by (simp add: run_defs)

text \<open>
  Claim C3, as the code has it. With an empty ensemble, and a track that returns one
  trajectory for each true state, the run always ends in an exception and nothing is
  summed, divided, persisted as results, fitted or plotted. Once both tracks have
  completed, the exception is the IndexError of \<open>uncorrected_infidelity[0]\<close> at line 142,
  which comes before the division by the ensemble size. A run can end in
  EmptyEnsembleError only if a collaborator raises it.
\<close>

theorem empty_ensemble_ends_in_IndexError:
  assumes "true_state_list a = []"
    and "\<And>q rows. QST_get_infidelity q \<in> set (calls (emqst E a)) \<Longrightarrow> get_infidelity E q = Inr rows
           \<Longrightarrow> length rows = length (true_state_list a)"
  shows "(\<exists>e. outcome (emqst E a) = Inl e) \<and>
         (\<forall>ev\<in>set (calls (emqst E a)). kind ev \<notin> {K_mean, K_results, K_fit, K_plot}) \<and>
         (tracks_completed (calls (emqst E a)) \<longrightarrow> outcome (emqst E a) = Inl IndexError) \<and>
         (outcome (emqst E a) = Inl EmptyEnsembleError \<longrightarrow>
            collaborator_raises E EmptyEnsembleError)"
proof -
  have 4: "collaborator_raises E EmptyEnsembleError"
    if "outcome (emqst E a) = Inl EmptyEnsembleError"
    using emqst_Inl [OF that]
    by (simp add: EmptyEnsembleError_def UnboundLocalError_def IndexError_def)
  have ui: "ui = []"
    if st: "outcome (pre_calibration E a) = Inr (dp, cs, ang, pl, mode, noisy)"
      "outcome (calibrate E a dp cs ang pl mode noisy) = Inr recon"
      "outcome (estimate E a dp pl mode noisy recon) = Inr (ci, cr, ui, ur)"
    for dp cs ang pl mode noisy recon ci cr ui ur
  proof -
    from outcome_estimate [OF st(3)] obtain qa q0 q1 q2 q3 where
      g: "get_infidelity E q3 = Inr ui"
      and q: "QST_calls (calls (estimate E a dp pl mode noisy recon)) =
             [QST_init qa, QST_generate_data q0 (Some noisy), QST_save_QST_settings q1 dp mode] @
             calls (perform E (method a) q1 (Some recon)) @
             [QST_get_infidelity q2, QST_get_rho_estm q2] @
             calls (perform E (method a) q2 None) @
             [QST_get_infidelity q3, QST_get_rho_estm q3]"
      by blast
    have "QST_get_infidelity q3 \<in> set (QST_calls (calls (estimate E a dp pl mode noisy recon)))"
      by (simp add: q)
    then have "QST_get_infidelity q3 \<in> set (calls (estimate E a dp pl mode noisy recon))"
      by (rule QST_calls_subset)
    with st have "QST_get_infidelity q3 \<in> set (calls (emqst E a))"
      unfolding mem_calls_emqst by blast
    from assms(2) [OF this g] assms(1) show ?thesis
      by simp
  qed
  have "\<not> (\<exists>res. outcome (emqst E a) = Inr res)"
    unfolding outcome_emqst_Inr by (auto dest!: ui)
  then have 1: "\<exists>e. outcome (emqst E a) = Inl e"
    by (cases "outcome (emqst E a)") auto
  have 2: "kind ev \<notin> {K_mean, K_results, K_fit, K_plot}" if "ev \<in> set (calls (emqst E a))" for ev
    using that unfolding mem_calls_emqst
    by (auto dest: kind_pre_calibration kind_calibrate kind_estimate dest!: ui)
  have 3: "outcome (emqst E a) = Inl IndexError" if "tracks_completed (calls (emqst E a))"
  proof -
    from tracks_completed_emqst [OF that] obtain dp cs ang pl mode noisy recon ci cr ui ur where
      st: "outcome (pre_calibration E a) = Inr (dp, cs, ang, pl, mode, noisy)"
        "outcome (calibrate E a dp cs ang pl mode noisy) = Inr recon"
        "outcome (estimate E a dp pl mode noisy recon) = Inr (ci, cr, ui, ur)"
      by blast
    from ui [OF st] st show ?thesis
      by (simp add: emqst_def outcome_bnd)
  qed
  from 1 2 3 4 show ?thesis
    by blast
qed

theorem empty_ensemble_witness:
  "true_state_list (stub_args\<lparr>true_state_list := []\<rparr>) = [] \<and>
   tracks_completed (calls (emqst stub_env (stub_args\<lparr>true_state_list := []\<rparr>))) \<and>
   outcome (emqst stub_env (stub_args\<lparr>true_state_list := []\<rparr>)) = Inl IndexError"
proof -
  let ?a = "stub_args\<lparr>true_state_list := []\<rparr>"
  have h1: "true_state_list ?a = []"
    by simp
  have t: "tracks_completed (calls (emqst stub_env ?a))"
    by (simp add: tracks_completed_def run_defs)
  have "(\<exists>e. outcome (emqst stub_env ?a) = Inl e) \<and>
        (\<forall>ev\<in>set (calls (emqst stub_env ?a)). kind ev \<notin> {K_mean, K_results, K_fit, K_plot}) \<and>
        (tracks_completed (calls (emqst stub_env ?a)) \<longrightarrow>
           outcome (emqst stub_env ?a) = Inl IndexError) \<and>
        (outcome (emqst stub_env ?a) = Inl EmptyEnsembleError \<longrightarrow>
           collaborator_raises stub_env EmptyEnsembleError)"
  proof (rule empty_ensemble_ends_in_IndexError)
    show "true_state_list ?a = []"
      by (rule h1)
    show "length rows = length (true_state_list ?a)"
      if "QST_get_infidelity q \<in> set (calls (emqst stub_env ?a))"
        and "get_infidelity stub_env q = Inr rows" for q rows
      using that by (auto simp: run_defs)
  qed
  with t h1 show ?thesis
    by blast
qed

text \<open>
  Claim C3 as stated fails: the run on an empty ensemble ends in IndexError, which is not
  EmptyEnsembleError.
\<close>

theorem empty_ensemble_counterexample:
  "true_state_list (stub_args\<lparr>true_state_list := []\<rparr>) = [] \<and>
   outcome (emqst stub_env (stub_args\<lparr>true_state_list := []\<rparr>)) = Inl IndexError \<and>
   outcome (emqst stub_env (stub_args\<lparr>true_state_list := []\<rparr>)) \<noteq> Inl EmptyEnsembleError"
  by (simp add: run_defs IndexError_def EmptyEnsembleError_def)

text \<open>
  Claim C4. When the caller supplies the calibration states, \<open>calibration_angles\<close> is
  never bound: whatever the collaborators do, the run ends in an exception and
  \<open>device_tomography\<close> is never called; and once the statements before line 87 have
  completed, the exception is the UnboundLocalError raised while the arguments of the
  calibration call are evaluated.
\<close>

theorem supplied_calibration_states_never_reach_calibration:
  assumes "calibration_states a = Some cs"
  shows "(\<exists>e. outcome (emqst E a) = Inl e) \<and>
         (\<forall>d. Call_device_tomography d \<notin> set (calls (emqst E a))) \<and>
         (\<forall>dp cs' ang pl mode noisy.
            outcome (pre_calibration E a) = Inr (dp, cs', ang, pl, mode, noisy) \<longrightarrow>
            ang = None \<and> outcome (emqst E a) = Inl UnboundLocalError)"
proof (cases "outcome (pre_calibration E a)")
  case (Inl e)
  then have "outcome (emqst E a) = Inl e" "calls (emqst E a) = calls (pre_calibration E a)"
    by (simp_all add: emqst_def outcome_bnd_Inl calls_bnd_Inl)
  with Inl show ?thesis
    by (auto dest: kind_pre_calibration)
next
  case (Inr x)
  obtain dp cs' ang pl mode noisy where x: "x = (dp, cs', ang, pl, mode, noisy)"
    by (cases x) auto
  from Inr x assms have ang: "ang = None"
    by (auto dest!: outcome_pre_calibration simp: outcome_resolve_calibration)
  from Inr x ang have "outcome (emqst E a) = Inl UnboundLocalError"
    "calls (emqst E a) = calls (pre_calibration E a)"
    by (simp_all add: emqst_def outcome_bnd calls_bnd)
  with Inr x ang show ?thesis
    by (auto dest: kind_pre_calibration)
qed

theorem supplied_calibration_states_witness:
  "calibration_states (stub_args\<lparr>calibration_states := Some [1, 2]\<rparr>) = Some [1, 2] \<and>
   outcome (emqst stub_env (stub_args\<lparr>calibration_states := Some [1, 2]\<rparr>)) = Inl UnboundLocalError"
proof -
  let ?a = "stub_args\<lparr>calibration_states := Some [1, 2]\<rparr>"
  have h: "calibration_states ?a = Some [1, 2]"
    by simp
  have p: "outcome (pre_calibration stub_env ?a) =
             Inr (''results/run'', [1, 2], None, \<lparr>oid = 0, items = [0, 1, 2]\<rparr>, 0,
                  \<lparr>oid = 0, items = [0, 1, 2]\<rparr>)"
    by (simp add: run_defs)
  from supplied_calibration_states_never_reach_calibration [OF h, of stub_env] p h
  show ?thesis
    by blast
qed

text \<open>
  Claim C5, as the code has it. With noise mode 0 (as argument, or forced by the
  experimental flag) no noise transform is called and \<open>noisy_POVM_list\<close> is the very
  object \<open>POVM_list\<close>: the same identity and the same contents, so the noisy set equals
  the nominal set, as an alias of it and not as a copy. Calibration and the saved settings
  receive that one object under both names.
\<close>

theorem no_noise_binds_the_nominal_object:
  assumes "effective_noise_mode a = 0"
  shows "(\<forall>ev\<in>set (calls (emqst E a)). kind ev \<noteq> K_noise) \<and>
         (\<forall>dp cs ang pl mode noisy.
            outcome (pre_calibration E a) = Inr (dp, cs, ang, pl, mode, noisy) \<longrightarrow> noisy = pl) \<and>
         (\<forall>d. Call_device_tomography d \<in> set (calls (emqst E a)) \<longrightarrow>
            dt_noisy_POVM_list d = dt_initial_guess_POVM d) \<and>
         (\<forall>path s. Save_DT_settings path s \<in> set (calls (emqst E a)) \<longrightarrow>
            ds_noisy_POVM_list s = ds_initial_POVM s)"
proof -
  have same: "noisy = pl"
    if "outcome (pre_calibration E a) = Inr (dp, cs, ang, pl, mode, noisy)"
    for dp cs ang pl mode noisy
    using outcome_pre_calibration [OF that] assms by (simp add: outcome_apply_noise)
  have "kind ev \<noteq> K_noise" if "ev \<in> set (calls (emqst E a))" for ev
    using noise_calls_emqst [OF that] assms by blast
  moreover have "dt_noisy_POVM_list d = dt_initial_guess_POVM d"
    if "Call_device_tomography d \<in> set (calls (emqst E a))" for d
    using device_tomography_call_emqst [OF that] same by blast
  moreover have "ds_noisy_POVM_list s = ds_initial_POVM s"
    if "Save_DT_settings path s \<in> set (calls (emqst E a))" for path s
    using DT_settings_emqst [OF that] same by blast
  ultimately show ?thesis
    using same by blast
qed

theorem no_noise_witness:
  "effective_noise_mode stub_args = 0 \<and>
   outcome (pre_calibration stub_env stub_args) =
     Inr (''results/run'', [0, 1, 2, 3], Some 0, \<lparr>oid = 0, items = [0, 1, 2]\<rparr>, 0,
          \<lparr>oid = 0, items = [0, 1, 2]\<rparr>)"
proof -
  have h: "effective_noise_mode stub_args = 0"
    by (simp add: effective_noise_mode_def stub_args_def)
  obtain dp cs ang pl mode noisy where
    p: "outcome (pre_calibration stub_env stub_args) = Inr (dp, cs, ang, pl, mode, noisy)"
    and v: "dp = ''results/run''" "cs = [0, 1, 2, 3]" "ang = Some 0"
      "pl = \<lparr>oid = 0, items = [0, 1, 2]\<rparr>" "mode = 0"
    by (simp add: run_defs)
  from no_noise_binds_the_nominal_object [OF h, of stub_env] p have "noisy = pl"
    by blast
  with p v h show ?thesis
    by simp
qed

text \<open>
  Claim C5 as stated fails in its second half: with noise mode 0 the noisy set that
  calibration receives has the object identity of the nominal set (0 in this run), where
  a copy would be another object.
\<close>

theorem no_noise_copy_counterexample:
  "noise_mode stub_args = 0 \<and>
   outcome (pre_calibration stub_env stub_args) =
     Inr (''results/run'', [0, 1, 2, 3], Some 0, \<lparr>oid = 0, items = [0, 1, 2]\<rparr>, 0,
          \<lparr>oid = 0, items = [0, 1, 2]\<rparr>) \<and>
   Call_device_tomography
     \<lparr>dt_n_qubits = 1, dt_n_calibration_shots_each = 5,
      dt_noisy_POVM_list = \<lparr>oid = 0, items = [0, 1, 2]\<rparr>,
      dt_calibration_states = [0, 1, 2, 3], dt_n_cores = 1,
      dt_bool_exp_meaurements = False, dt_exp_dictionary = (),
      dt_initial_guess_POVM = \<lparr>oid = 0, items = [0, 1, 2]\<rparr>,
      dt_calibration_angles = 0\<rparr> \<in> set (calls (emqst stub_env stub_args))"
  by (simp add: run_defs)

text \<open>
  Claim C6. With the experimental-measurement flag set, whatever the noise-mode
  argument: the noise mode in force after line 73 is 0 and the noisy set is the nominal
  set, no noise transform is called in the run, the noise mode written to \<open>DT_settings\<close>
  and passed to \<open>save_QST_settings\<close> is 0, and every run that gets as far as line 84
  has printed the message that noise is disabled.
\<close>

theorem experimental_measurements_disable_noise:
  assumes "bool_exp_measurements a"
  shows "(\<forall>dp cs ang pl mode noisy.
            outcome (pre_calibration E a) = Inr (dp, cs, ang, pl, mode, noisy) \<longrightarrow>
            mode = 0 \<and> noisy = pl) \<and>
         (\<forall>ev\<in>set (calls (emqst E a)). kind ev \<noteq> K_noise) \<and>
         (\<forall>path s. Save_DT_settings path s \<in> set (calls (emqst E a)) \<longrightarrow> ds_noise_mode s = 0) \<and>
         (\<forall>q path m. QST_save_QST_settings q path m \<in> set (calls (emqst E a)) \<longrightarrow> m = 0) \<and>
         ((\<exists>x. outcome (pre_calibration E a) = Inr x) \<longrightarrow>
            Print ''Noise mode is disabled as experimental measurements are performed.'' []
              \<in> set (calls (emqst E a)))"
proof -
  from assms have m: "effective_noise_mode a = 0"
    by (simp add: effective_noise_mode_def)
  have "mode = 0 \<and> noisy = pl"
    if "outcome (pre_calibration E a) = Inr (dp, cs, ang, pl, mode, noisy)"
    for dp cs ang pl mode noisy
    using outcome_pre_calibration [OF that] m by (simp add: outcome_apply_noise)
  moreover have "kind ev \<noteq> K_noise" if "ev \<in> set (calls (emqst E a))" for ev
    using noise_calls_emqst [OF that] m by blast
  moreover have "ds_noise_mode s = 0" if "Save_DT_settings path s \<in> set (calls (emqst E a))"
    for path s
    using DT_settings_emqst [OF that] m by (auto dest!: outcome_pre_calibration)
  moreover have "mm = 0" if "QST_save_QST_settings q path mm \<in> set (calls (emqst E a))"
    for q path mm
    using save_QST_settings_emqst [OF that] m by simp
  moreover have "Print ''Noise mode is disabled as experimental measurements are performed.'' []
              \<in> set (calls (emqst E a))" if "outcome (pre_calibration E a) = Inr x" for x
    using warning_pre_calibration [OF assms that] unfolding mem_calls_emqst by blast
  ultimately show ?thesis
    by blast
qed

theorem experimental_measurements_witness:
  "bool_exp_measurements (stub_args\<lparr>bool_exp_measurements := True, noise_mode := 2\<rparr>) \<and>
   noise_mode (stub_args\<lparr>bool_exp_measurements := True, noise_mode := 2\<rparr>) = 2 \<and>
   outcome (pre_calibration stub_env (stub_args\<lparr>bool_exp_measurements := True, noise_mode := 2\<rparr>)) =
     Inr (''results/run'', [0, 1, 2, 3], Some 0, \<lparr>oid = 0, items = [0, 1, 2]\<rparr>, 0,
          \<lparr>oid = 0, items = [0, 1, 2]\<rparr>) \<and>
   Print ''Noise mode is disabled as experimental measurements are performed.'' []
     \<in> set (calls (emqst stub_env (stub_args\<lparr>bool_exp_measurements := True, noise_mode := 2\<rparr>)))"
proof -
  let ?a = "stub_args\<lparr>bool_exp_measurements := True, noise_mode := 2\<rparr>"
  have h: "bool_exp_measurements ?a"
    by simp
  have p: "outcome (pre_calibration stub_env ?a) =
             Inr (''results/run'', [0, 1, 2, 3], Some 0, \<lparr>oid = 0, items = [0, 1, 2]\<rparr>, 0,
                  \<lparr>oid = 0, items = [0, 1, 2]\<rparr>)"
    by (simp add: run_defs)
  from experimental_measurements_disable_noise [OF h, of stub_env] p h show ?thesis
    by (simp add: stub_args_def)
qed

text \<open>
  Claim C7, as the code has it. With the BME estimator and fewer than 10 cores, a run
  that has written \<open>QST_results.npy\<close> goes on to the fit whatever the number of samples.
  When the corrected mean is an array, the call of \<open>curve_fit\<close> is the very next call
  after the results are written, on the samples from index 1000 on, which are none when
  there are at most 1000, and the run completes only if that call returns. When the
  corrected mean is a scalar (numpy's sum of an array without rows), the slice
  \<open>corrected_average[1000:]\<close> raises IndexError: writing the results is the last call of
  the run and no fit is called.
\<close>

theorem curve_fit_follows_the_persisted_results:
  assumes "n_cores a < 10" and "method a = ''BME''"
    and "Save_QST_results path ci ui cr ur \<in> set (calls (emqst E a))"
    and "io_error E (Save_QST_results path ci ui cr ur) = None"
  shows "\<exists>row0 rest csum ca pre.
           ui = row0 # rest \<and>
           np_sum_axis0 E ci = Inr csum \<and>
           np_true_divide E csum (int (length (true_state_list a))) = Inr ca \<and>
           (case ca of
              Np_vector v \<Rightarrow>
                (\<exists>post. calls (emqst E a) =
                   pre @ Save_QST_results path ci ui cr ur #
                   Call_curve_fit (drop 1000 [0..<length row0]) (drop 1000 v) (1, - 1 / 2) # post) \<and>
                (length row0 \<le> 1000 \<longrightarrow> drop 1000 [0..<length row0] = []) \<and>
                (length v \<le> 1000 \<longrightarrow> drop 1000 v = []) \<and>
                ((\<exists>res. outcome (emqst E a) = Inr res) \<longrightarrow>
                   (\<exists>popt. curve_fit E (drop 1000 [0..<length row0]) (drop 1000 v) (1, - 1 / 2)
                           = Inr popt))
            | Np_scalar x \<Rightarrow>
                calls (emqst E a) = pre @ [Save_QST_results path ci ui cr ur] \<and>
                outcome (emqst E a) = Inl IndexError)"
proof -
  let ?n = "int (length (true_state_list a))"
  from save_QST_results_aggregate [OF assms(3)]
  obtain dp cs ang pl mode noisy recon row0 rest csum ca usum ua where
    st: "outcome (pre_calibration E a) = Inr (dp, cs, ang, pl, mode, noisy)"
      "outcome (calibrate E a dp cs ang pl mode noisy) = Inr recon"
      "outcome (estimate E a dp pl mode noisy recon) = Inr (ci, cr, ui, ur)"
    and path: "path = dp @ ''/QST_results.npy''" and ui: "ui = row0 # rest"
    and np: "np_sum_axis0 E ci = Inr csum" "np_true_divide E csum ?n = Inr ca"
      "np_sum_axis0 E ui = Inr usum" "np_true_divide E usum ?n = Inr ua"
    and agg_calls: "calls (aggregate E a dp ci cr ui ur) =
             [Np_sum_axis0 ci, Np_true_divide csum ?n, Np_sum_axis0 ui, Np_true_divide usum ?n,
              Save_QST_results path ci ui cr ur]"
    by blast
  let ?ss = "[0..<length row0]"
  from assms(4) path ui np have agg: "outcome (aggregate E a dp ci cr ui ur) = Inr (?ss, ca, ua)"
    by (simp add: outcome_aggregate)
  let ?pre = "calls (pre_calibration E a) @ calls (calibrate E a dp cs ang pl mode noisy) @
      calls (estimate E a dp pl mode noisy recon) @
      [Np_sum_axis0 ci, Np_true_divide csum ?n, Np_sum_axis0 ui, Np_true_divide usum ?n]"
  from calls_emqst_aggregated [OF st agg] agg_calls have
    c: "calls (emqst E a) =
          ?pre @ Save_QST_results path ci ui cr ur # calls (fit_and_plot E a dp ?ss ca ua)"
    and o: "outcome (emqst E a) =
          (case outcome (fit_and_plot E a dp ?ss ca ua) of
              Inl e \<Rightarrow> Inl e
            | Inr u \<Rightarrow> Inr (ci, ui, cr))"
    by simp_all
  have "case ca of
              Np_vector v \<Rightarrow>
                (\<exists>post. calls (emqst E a) =
                   ?pre @ Save_QST_results path ci ui cr ur #
                   Call_curve_fit (drop 1000 ?ss) (drop 1000 v) (1, - 1 / 2) # post) \<and>
                (length row0 \<le> 1000 \<longrightarrow> drop 1000 ?ss = []) \<and>
                (length v \<le> 1000 \<longrightarrow> drop 1000 v = []) \<and>
                ((\<exists>res. outcome (emqst E a) = Inr res) \<longrightarrow>
                   (\<exists>popt. curve_fit E (drop 1000 ?ss) (drop 1000 v) (1, - 1 / 2) = Inr popt))
            | Np_scalar x \<Rightarrow>
                calls (emqst E a) = ?pre @ [Save_QST_results path ci ui cr ur] \<and>
                outcome (emqst E a) = Inl IndexError"
  proof (cases ca)
    case (Np_vector v)
    from calls_fit_and_plot_vector [OF assms(1,2), of E dp ?ss v ua] obtain post where
      "calls (fit_and_plot E a dp ?ss (Np_vector v) ua) =
         Call_curve_fit (drop 1000 ?ss) (drop 1000 v) (1, - 1 / 2) # post"
      by blast
    with c Np_vector have 1: "\<exists>post. calls (emqst E a) =
                   ?pre @ Save_QST_results path ci ui cr ur #
                   Call_curve_fit (drop 1000 ?ss) (drop 1000 v) (1, - 1 / 2) # post"
      by simp
    have 2: "\<exists>popt. curve_fit E (drop 1000 ?ss) (drop 1000 v) (1, - 1 / 2) = Inr popt"
      if "outcome (emqst E a) = Inr res" for res
    proof -
      from that o Np_vector obtain u where
        "outcome (fit_and_plot E a dp ?ss (Np_vector v) ua) = Inr u"
        by (auto split: sum.splits)
      then show ?thesis
        by (rule outcome_fit_and_plot_vector [OF assms(1,2)])
    qed
    from 1 2 Np_vector show ?thesis
      by auto
  next
    case (Np_scalar x)
    with c o fit_and_plot_scalar [OF assms(1,2), of E dp ?ss x ua] show ?thesis
      by simp
  qed
  with ui np show ?thesis
    by blast
qed

theorem curve_fit_follows_witness:
  "n_cores (stub_args\<lparr>method := ''BME''\<rparr>) < 10 \<and> method (stub_args\<lparr>method := ''BME''\<rparr>) = ''BME'' \<and>
   io_error stub_env
     (Save_QST_results ''results/run/QST_results.npy'' [[1, 1 / 2, 1 / 4], [1, 1 / 2, 1 / 4]] [[1, 1 / 2, 1 / 4], [1, 1 / 2, 1 / 4]] [4, 5] [4, 5]) = None \<and>
   drop 41 (calls (emqst stub_env (stub_args\<lparr>method := ''BME''\<rparr>))) =
     [Save_QST_results ''results/run/QST_results.npy'' [[1, 1 / 2, 1 / 4], [1, 1 / 2, 1 / 4]] [[1, 1 / 2, 1 / 4], [1, 1 / 2, 1 / 4]] [4, 5] [4, 5],
      Call_curve_fit [] [] (1, - 1 / 2)]"
proof -
  let ?a = "stub_args\<lparr>method := ''BME''\<rparr>"
  let ?m = "[[1, 1 / 2, 1 / 4], [1, 1 / 2, 1 / 4]] :: real list list"
  have h: "n_cores ?a < 10" "method ?a = ''BME''"
    by (simp_all add: stub_args_def)
  have ev: "drop 41 (calls (emqst stub_env ?a)) =
     [Save_QST_results ''results/run/QST_results.npy'' ?m ?m [4, 5] [4, 5],
      Call_curve_fit [] [] (1, - 1 / 2)]"
    by (simp add: run_defs)
  have "Save_QST_results ''results/run/QST_results.npy'' ?m ?m [4, 5] [4, 5]
          \<in> set (drop 41 (calls (emqst stub_env ?a)))"
    by (simp add: ev)
  then have s: "Save_QST_results ''results/run/QST_results.npy'' ?m ?m [4, 5] [4, 5]
          \<in> set (calls (emqst stub_env ?a))"
    by (rule in_set_dropD)
  have i: "io_error stub_env (Save_QST_results ''results/run/QST_results.npy'' ?m ?m [4, 5] [4, 5])
             = None"
    by (simp add: stub_env_def stub_base_def)
  note t = curve_fit_follows_the_persisted_results [OF h s i]
  from t ev h i show ?thesis
    by simp
qed

text \<open>
  Claim C7 as stated fails: with three samples for each trajectory the fit is called, on
  empty data, and with a fit that rejects empty data the run ends in that exception.
\<close>

theorem curve_fit_skipped_counterexample:
  "n_cores (stub_args\<lparr>method := ''BME''\<rparr>) < 10 \<and> method (stub_args\<lparr>method := ''BME''\<rparr>) = ''BME'' \<and>
   get_infidelity stub_env ([4, 5], Some 0) = Inr [[1, 1 / 2, 1 / 4], [1, 1 / 2, 1 / 4]] \<and>
   Call_curve_fit [] [] (1, - 1 / 2) \<in> set (calls (emqst stub_env (stub_args\<lparr>method := ''BME''\<rparr>))) \<and>
   outcome (emqst stub_env (stub_args\<lparr>method := ''BME''\<rparr>)) = Inl (Exn ''ValueError'')"
  by (simp add: run_defs)




text \<open>
  Claim C10. A run that completes returns three values in this order: the infidelity
  trajectories read from the track after the corrected estimation, those read after the
  uncorrected estimation, and the final estimates read after the corrected estimation.
  The final estimates of the uncorrected estimation are the fourth array written to
  \<open>QST_results.npy\<close> and are not part of the returned value.
\<close>

theorem emqst_returns_three_values:
  assumes "outcome (emqst E a) = Inr res"
  shows "\<exists>recon q1 q2 q3 ci cr ui ur.
           outcome (perform E (method a) q1 (Some recon)) = Inr q2 \<and>
           get_infidelity E q2 = Inr ci \<and> get_rho_estm E q2 = Inr cr \<and>
           outcome (perform E (method a) q2 None) = Inr q3 \<and>
           get_infidelity E q3 = Inr ui \<and> get_rho_estm E q3 = Inr ur \<and>
           res = (ci, ui, cr) \<and>
           Save_QST_results (''results/'' @ dir_name E @ ''/QST_results.npy'') ci ui cr ur
             \<in> set (calls (emqst E a))"
proof -
  from assms obtain dp cs ang pl mode noisy recon ci cr ui ur ss ca ua where
    st: "outcome (pre_calibration E a) = Inr (dp, cs, ang, pl, mode, noisy)"
      "outcome (calibrate E a dp cs ang pl mode noisy) = Inr recon"
      "outcome (estimate E a dp pl mode noisy recon) = Inr (ci, cr, ui, ur)"
      "outcome (aggregate E a dp ci cr ui ur) = Inr (ss, ca, ua)"
      "res = (ci, ui, cr)"
    unfolding outcome_emqst_Inr by blast
  from st(1) have dp: "dp = ''results/'' @ dir_name E"
    by (auto dest: outcome_pre_calibration)
  from outcome_estimate [OF st(3)] obtain q1 q2 q3 where
    q: "outcome (perform E (method a) q1 (Some recon)) = Inr q2"
      "get_infidelity E q2 = Inr ci" "get_rho_estm E q2 = Inr cr"
      "outcome (perform E (method a) q2 None) = Inr q3"
      "get_infidelity E q3 = Inr ui" "get_rho_estm E q3 = Inr ur"
    by blast
  from st(4) have "Save_QST_results (dp @ ''/QST_results.npy'') ci ui cr ur
      \<in> set (calls (aggregate E a dp ci cr ui ur))"
    by (auto simp: aggregate_def Let_def split: list.splits)
  with st have "Save_QST_results (dp @ ''/QST_results.npy'') ci ui cr ur \<in> set (calls (emqst E a))"
    unfolding mem_calls_emqst by blast
  then have "Save_QST_results (''results/'' @ dir_name E @ ''/QST_results.npy'') ci ui cr ur
      \<in> set (calls (emqst E a))"
    by (simp add: dp)
  with q st(5) show ?thesis
    by blast
qed

theorem emqst_returns_three_values_witness:
  "outcome (emqst stub_env stub_args) =
     Inr ([[1, 1 / 2, 1 / 4], [1, 1 / 2, 1 / 4]], [[1, 1 / 2, 1 / 4], [1, 1 / 2, 1 / 4]], [4, 5]) \<and>
   Save_QST_results ''results/run/QST_results.npy''
     [[1, 1 / 2, 1 / 4], [1, 1 / 2, 1 / 4]] [[1, 1 / 2, 1 / 4], [1, 1 / 2, 1 / 4]] [4, 5] [4, 5]
     \<in> set (calls (emqst stub_env stub_args))"
proof -
  have run: "outcome (emqst stub_env stub_args) =
     Inr ([[1, 1 / 2, 1 / 4], [1, 1 / 2, 1 / 4]], [[1, 1 / 2, 1 / 4], [1, 1 / 2, 1 / 4]], [4, 5])"
    by (simp add: run_defs)
  from emqst_returns_three_values [OF run] obtain q2 q3 ci cr ui ur where
    r: "get_infidelity stub_env q2 = Inr ci" "get_rho_estm stub_env q2 = Inr cr"
       "outcome (perform stub_env (method stub_args) q2 None) = Inr q3"
       "get_infidelity stub_env q3 = Inr ui" "get_rho_estm stub_env q3 = Inr ur"
       "([[1, 1 / 2, 1 / 4], [1, 1 / 2, 1 / 4]], [[1, 1 / 2, 1 / 4], [1, 1 / 2, 1 / 4]], [4, 5]) = (ci, ui, cr)"
       "Save_QST_results (''results/'' @ dir_name stub_env @ ''/QST_results.npy'') ci ui cr ur
          \<in> set (calls (emqst stub_env stub_args))"
    by blast
  from r(2,3,5,6) have "ur = [4, 5]"
    by (auto simp: stub_env_def stub_base_def stub_args_def perform_def)
  with r run show ?thesis
    by (simp add: stub_env_def stub_base_def)
qed

end
